theory Spec2Isabelle
  imports Main
begin

section \<open>Strings\<close>

text \<open>
  Python's \<^verbatim>\<open>s.startswith(p)\<close>, \<^verbatim>\<open>s.endswith(p)\<close> and the substring test
  \<^verbatim>\<open>sub in s\<close> on \<open>str\<close>.
\<close>

fun startswith :: "string \<Rightarrow> string \<Rightarrow> bool" where
  "startswith s [] = True"
| "startswith [] (p # ps) = False"
| "startswith (c # cs) (p # ps) = (c = p \<and> startswith cs ps)"

definition endswith :: "string \<Rightarrow> string \<Rightarrow> bool" where
  "endswith s p = startswith (rev s) (rev p)"

fun py_in :: "string \<Rightarrow> string \<Rightarrow> bool" where
  "py_in sub [] = (sub = [])"
| "py_in sub (c # cs) = (startswith (c # cs) sub \<or> py_in sub cs)"

text \<open>\<^verbatim>\<open>s.split(sep)\<close> for a one-character separator: never empty, \<open>[[]]\<close> on the empty string.\<close>

fun split_on :: "char \<Rightarrow> string \<Rightarrow> string list" where
  "split_on sep [] = [[]]"
| "split_on sep (c # cs) =
     (if c = sep then [] # split_on sep cs
      else (case split_on sep cs of
              [] \<Rightarrow> [[c]]
            | w # ws \<Rightarrow> (c # w) # ws))"

text \<open>\<^verbatim>\<open>sep.join(xs)\<close>.\<close>

fun join_with :: "string \<Rightarrow> string list \<Rightarrow> string" where
  "join_with sep [] = []"
| "join_with sep [x] = x"
| "join_with sep (x # y # ys) = x @ sep @ join_with sep (y # ys)"

section \<open>Task categories (\<^verbatim>\<open>ModelManagerWindow._update_tasks\<close>, \<^verbatim>\<open>_update_models\<close>)\<close>

text \<open>
  The category labels are the five strings the loop of \<^verbatim>\<open>_update_tasks\<close> appends; the
  constructors carry their names.
\<close>

datatype task = Detection | Segmentation | Pose | OBB | Classification

text \<open>The body of the loop of \<^verbatim>\<open>_update_tasks\<close>: the first matching branch wins.\<close>

definition task_of :: "string \<Rightarrow> task" where
  "task_of m =
     (if py_in ''-pose'' m then Pose
      else if py_in ''-seg'' m then Segmentation
      else if py_in ''-obb'' m then OBB
      else if py_in ''-cls'' m then Classification
      else Detection)"

definition task_order :: "task list" where
  "task_order = [Detection, Segmentation, Pose, OBB, Classification]"

text \<open>\<^verbatim>\<open>xs.index(x)\<close>; the source calls it only on members of the list.\<close>

fun index_of :: "'a list \<Rightarrow> 'a \<Rightarrow> nat" where
  "index_of [] x = 0"
| "index_of (y # ys) x = (if x = y then 0 else Suc (index_of ys x))"

text \<open>\<^verbatim>\<open>self.model_data.get(version, [])\<close>.\<close>

definition models_of :: "(string \<rightharpoonup> string list) \<Rightarrow> string \<Rightarrow> string list" where
  "models_of model_data version = (case model_data version of None \<Rightarrow> [] | Some ms \<Rightarrow> ms)"

text \<open>
  \<^verbatim>\<open>sorted(set(tasks), key=...)\<close>: the key is the position in the fixed list (every label
  the loop produces is in that list, so the \<^verbatim>\<open>else x\<close> of the key is never taken).
  \<open>sort_tasks\<close> is the sort on some enumeration of the set; \<open>update_tasks\<close> enumerates
  it by \<open>remdups\<close>, and \<open>sort_tasks_filter\<close> below shows the enumeration does not matter.
\<close>

definition sort_tasks :: "task list \<Rightarrow> task list" where
  "sort_tasks xs = sort_key (index_of task_order) xs"

definition update_tasks :: "(string \<rightharpoonup> string list) \<Rightarrow> string \<Rightarrow> task list" where
  "update_tasks model_data version =
     (let models = models_of model_data version;
          tasks = map task_of models
      in sort_tasks (remdups tasks))"

text \<open>
  \<^verbatim>\<open>_update_models\<close>: the identifiers listed for the selected category; \<open>None\<close> is the
  empty text of an empty selector.
\<close>

definition model_matches :: "task option \<Rightarrow> string \<Rightarrow> bool" where
  "model_matches t m =
     (if t = Some Detection \<and>
         \<not> (py_in ''-seg'' m \<or> py_in ''-pose'' m \<or> py_in ''-obb'' m \<or> py_in ''-cls'' m)
      then True
      else if t = Some Segmentation \<and> py_in ''-seg'' m then True
      else if t = Some Pose \<and> py_in ''-pose'' m then True
      else if t = Some OBB \<and> py_in ''-obb'' m then True
      else if t = Some Classification \<and> py_in ''-cls'' m then True
      else False)"

definition update_models :: "(string \<rightharpoonup> string list) \<Rightarrow> string \<Rightarrow> task option \<Rightarrow> string list" where
  "update_models model_data version t = filter (model_matches t) (models_of model_data version)"

section \<open>Paths (\<^verbatim>\<open>pathlib.Path\<close> on POSIX) and the file system\<close>

text \<open>
  A \<^verbatim>\<open>Path\<close> object is what \<^verbatim>\<open>pathlib\<close> parses a string into: whether it starts at
  the root, and its components, with empty components and \<^verbatim>\<open>.\<close> dropped and \<^verbatim>\<open>..\<close>
  kept. (The implementation-defined root \<^verbatim>\<open>//\<close> of POSIX is read as \<^verbatim>\<open>/\<close>.)
\<close>

record ppath =
  absolute :: bool
  parts :: "string list"

definition Path :: "string \<Rightarrow> ppath" where
  "Path s = \<lparr>absolute = startswith s ''/'',
            parts = filter (\<lambda>c. c \<noteq> [] \<and> c \<noteq> ''.'') (split_on CHR ''/'' s)\<rparr>"

text \<open>\<^verbatim>\<open>os.path.isabs(s)\<close> on a string.\<close>

definition isabs :: "string \<Rightarrow> bool" where
  "isabs s = startswith s ''/''"

text \<open>\<^verbatim>\<open>p / s\<close>: an absolute right operand replaces the left one.\<close>

definition joinpath :: "ppath \<Rightarrow> string \<Rightarrow> ppath" where
  "joinpath p s = (let q = Path s in if absolute q then q else p\<lparr>parts := parts p @ parts q\<rparr>)"

text \<open>\<^verbatim>\<open>str(p)\<close>.\<close>

definition str_path :: "ppath \<Rightarrow> string" where
  "str_path p =
     (if absolute p then ''/'' @ join_with ''/'' (parts p)
      else if parts p = [] then ''.''
      else join_with ''/'' (parts p))"

text \<open>\<^verbatim>\<open>p.parent\<close>, \<^verbatim>\<open>p.name\<close>, \<^verbatim>\<open>p.stem\<close>, \<^verbatim>\<open>p.with_name(n)\<close>.\<close>

definition parent :: "ppath \<Rightarrow> ppath" where
  "parent p = p\<lparr>parts := butlast (parts p)\<rparr>"

definition name :: "ppath \<Rightarrow> string" where
  "name p = (if parts p = [] then [] else last (parts p))"

text \<open>
  The stem cuts the name at its last dot, unless that dot is the first or the last
  character (or there is none).
\<close>

definition stem_of :: "string \<Rightarrow> string" where
  "stem_of n =
     (let after = takeWhile (\<lambda>c. c \<noteq> CHR ''.'') (rev n);
          i = length n - length after - 1
      in if length after < length n \<and> 0 < i \<and> 0 < length after then take i n else n)"

definition stem :: "ppath \<Rightarrow> string" where
  "stem p = stem_of (name p)"

text \<open>
  \<^verbatim>\<open>with_name\<close> raises \<^verbatim>\<open>ValueError\<close> on a path without a name and on a new name
  that is empty, is \<^verbatim>\<open>.\<close> or holds a separator.
\<close>

definition with_name :: "ppath \<Rightarrow> string \<Rightarrow> ppath option" where
  "with_name p n =
     (if name p = [] \<or> n = [] \<or> n = ''.'' \<or> CHR ''/'' \<in> set n then None
      else Some (p\<lparr>parts := butlast (parts p) @ [n]\<rparr>))"

text \<open>
  Files live under their resolved location: the components from the root, after the
  working directory is put in front of a relative path and every \<^verbatim>\<open>..\<close> has taken
  away the component before it (at the root it stays at the root). Symbolic links are
  not modelled, so this is \<^verbatim>\<open>Path.resolve()\<close> and \<^verbatim>\<open>os.path.abspath\<close> alike.
\<close>

type_synonym location = "string list"

definition norm_step :: "string list \<Rightarrow> string \<Rightarrow> string list" where
  "norm_step st c = (if c = ''..'' then tl st else c # st)"

definition normpath :: "string list \<Rightarrow> location" where
  "normpath ps = rev (foldl norm_step [] ps)"

definition locate :: "string \<Rightarrow> ppath \<Rightarrow> location" where
  "locate cwd p = normpath ((if absolute p then [] else parts (Path cwd)) @ parts p)"

definition resolve :: "string \<Rightarrow> ppath \<Rightarrow> ppath" where
  "resolve cwd p = \<lparr>absolute = True, parts = locate cwd p\<rparr>"

text \<open>
  What a YAML file parses to: a mapping from keys to values; a sequence of values; a
  string; another scalar, which is not iterable (a number, a boolean, a date); the
  empty document; or text that is no YAML. Of the values in a mapping or a sequence
  only strings are looked into. A file is such a text, or bytes that are no text
  (weights, an engine).
\<close>

datatype yval = YStr string | YOther

datatype ydoc =
  Malformed | Null | Atom | Scalar string | Sequence "yval list" | Mapping "string \<rightharpoonup> yval"

datatype fcontent = Opaque string | Descriptor ydoc

type_synonym fs = "location \<rightharpoonup> fcontent"

text \<open>\<^verbatim>\<open>p.exists()\<close> and \<^verbatim>\<open>os.path.exists(s)\<close>.\<close>

definition path_exists :: "string \<Rightarrow> fs \<Rightarrow> ppath \<Rightarrow> bool" where
  "path_exists cwd files p = (case files (locate cwd p) of None \<Rightarrow> False | Some c \<Rightarrow> True)"

section \<open>\<^verbatim>\<open>ModelManager\<close>: the state queries\<close>

text \<open>
  Of the object only \<^verbatim>\<open>weights_dir\<close> matters to the queries; it is
  \<^verbatim>\<open>Path(settings["weights_dir"])\<close>.
\<close>

definition model_file_path :: "ppath \<Rightarrow> string \<Rightarrow> ppath" where
  "model_file_path weights_dir model_name =
     (let nm = (if endswith model_name ''.pt'' then model_name else model_name @ ''.pt'')
      in joinpath weights_dir nm)"

definition is_model_downloaded :: "string \<Rightarrow> fs \<Rightarrow> ppath \<Rightarrow> string \<Rightarrow> string \<Rightarrow> bool" where
  "is_model_downloaded cwd files weights_dir version model =
     (let model_path = model_file_path weights_dir model
      in path_exists cwd files model_path)"

definition get_engine_path :: "ppath \<Rightarrow> string \<Rightarrow> string \<Rightarrow> ppath" where
  "get_engine_path weights_dir model_name precision =
     (let nm = (if endswith model_name ''.pt'' then model_name else model_name @ ''.pt'')
      in joinpath weights_dir (stem (Path nm) @ ''-'' @ precision @ ''.engine''))"

definition engine_exists :: "string \<Rightarrow> fs \<Rightarrow> ppath \<Rightarrow> string \<Rightarrow> string \<Rightarrow> bool" where
  "engine_exists cwd files weights_dir model_name precision =
     path_exists cwd files (get_engine_path weights_dir model_name precision)"

section \<open>The environment of the background tasks\<close>

text \<open>
  An exception is its class, as far as the handlers of \<^verbatim>\<open>EngineExportWorker.run\<close> tell
  classes apart, and its text \<^verbatim>\<open>str(e)\<close>.
\<close>

datatype exn_class = ValueError | FileNotFoundError | SyntaxError | TypeError | OtherError

datatype exn = Exn exn_class string

fun exn_class_of :: "exn \<Rightarrow> exn_class" where
  "exn_class_of (Exn c m) = c"

fun exn_str :: "exn \<Rightarrow> string" where
  "exn_str (Exn c m) = m"

text \<open>
  What the tasks consult and cannot see into:
  \<^item> \<open>getcwd\<close>: the working directory of the process;
  \<^item> \<open>weights_dir_setting\<close>: \<^verbatim>\<open>settings["weights_dir"]\<close>;
  \<^item> \<open>YOLO\<close>: the retrieval delegate \<^verbatim>\<open>YOLO(path)\<close>, which prints lines, may change
    the files, and returns or raises;
  \<^item> \<open>Popen\<close>: the compiler process on an argument vector: it cannot be started
    (\<open>Inl\<close>), or it runs: then the lines are the ones the loop over \<^verbatim>\<open>proc.stdout\<close>
    decodes and sends, the exception is the one that ends that loop if the output
    cannot be decoded (\<^verbatim>\<open>text=True\<close>; a \<^verbatim>\<open>UnicodeDecodeError\<close>, which is a
    \<^verbatim>\<open>ValueError\<close>), and the code and the files are what the process leaves when the
    \<^verbatim>\<open>with\<close> statement has waited for it;
  \<^item> \<open>yaml_dump\<close>: \<^verbatim>\<open>yaml.dump\<close> on a document: it writes it, or raises (a
    \<^verbatim>\<open>RecursionError\<close> on a deeply nested document, an error of the write);
  \<^item> \<open>gettempdir\<close> and \<open>random_names\<close>: the directory and the sequence of random
    name parts \<^verbatim>\<open>tempfile\<close> tries;
  \<^item> \<open>is_gpu_available\<close> and \<open>is_tensorrt_installed\<close>: the two probes of the window.
  Directories are implicit in the locations of the files, so
  \<^verbatim>\<open>weights_dir.mkdir(parents=True, exist_ok=True)\<close> changes nothing.
\<close>

record env =
  getcwd :: string
  weights_dir_setting :: string
  YOLO :: "string \<Rightarrow> fs \<Rightarrow> string list \<times> fs \<times> exn option"
  Popen :: "string list \<Rightarrow> fs \<Rightarrow> exn + (string list \<times> exn option \<times> int \<times> fs)"
  yaml_dump :: "ydoc \<Rightarrow> exn option"
  gettempdir :: string
  random_names :: "string list"
  is_gpu_available :: bool
  is_tensorrt_installed :: bool

text \<open>\<^verbatim>\<open>s.strip()\<close> (ASCII whitespace) and \<^verbatim>\<open>str(n)\<close> for an integer.\<close>

definition is_space :: "char \<Rightarrow> bool" where
  "is_space c = (c \<in> set [CHR 0x20, CHR 0x09, CHR 0x0A, CHR 0x0B, CHR 0x0C, CHR 0x0D,
                           CHR 0x1C, CHR 0x1D, CHR 0x1E, CHR 0x1F])"

definition strip :: "string \<Rightarrow> string" where
  "strip s = rev (dropWhile is_space (rev (dropWhile is_space s)))"

definition digit_char :: "nat \<Rightarrow> char" where
  "digit_char d = ''0123456789'' ! d"

fun str_nat :: "nat \<Rightarrow> string" where
  "str_nat n = (if n < 10 then [digit_char n] else str_nat (n div 10) @ [digit_char (n mod 10)])"

definition str_int :: "int \<Rightarrow> string" where
  "str_int i = (if i < 0 then ''-'' @ str_nat (nat (- i)) else str_nat (nat i))"

section \<open>The download task (\<^verbatim>\<open>ModelDownloadWorker.run\<close>) and \<^verbatim>\<open>ModelManager.download_model\<close>\<close>

text \<open>
  The run yields the lines sent on \<^verbatim>\<open>output\<close> (the worker's own and the delegate's
  prints, which \<^verbatim>\<open>StreamRedirect.write\<close> forwards unless blank), the one
  \<^verbatim>\<open>download_complete\<close> signal, and the files it leaves.
\<close>

record download_result =
  dl_output :: "string list"
  dl_complete :: "bool \<times> string"
  dl_files :: fs

definition forwarded :: "string list \<Rightarrow> string list" where
  "forwarded printed = filter (\<lambda>t. strip t \<noteq> []) printed"

definition download_run :: "env \<Rightarrow> string \<Rightarrow> fs \<Rightarrow> download_result" where
  "download_run env model_name files =
     (let weights_dir = Path (weights_dir_setting env);
          model_path = joinpath weights_dir (model_name @ ''.pt'');
          out1 = [''Starting to download model '' @ model_name @ ''...'']
      in case YOLO env (str_path model_path) files of
           (printed, files', None) \<Rightarrow>
             if path_exists (getcwd env) files' model_path
             then \<lparr>dl_output = out1 @ forwarded printed @
                                [''Download of '' @ model_name @ '' complete and stored at '' @
                                 str_path model_path @ ''.''],
                   dl_complete = (True, ''Download successful.''),
                   dl_files = files'\<rparr>
             else \<lparr>dl_output = out1 @ forwarded printed @
                                [''Download failed. Model file not found.''],
                   dl_complete = (False, ''Download failed.''),
                   dl_files = files'\<rparr>
         | (printed, files', Some e) \<Rightarrow>
             \<lparr>dl_output = out1 @ forwarded printed @
                          [''An error occurred during download: '' @ exn_str e],
              dl_complete = (False, exn_str e),
              dl_files = files'\<rparr>)"

text \<open>
  \<^verbatim>\<open>ModelManager.download_model\<close> returns its flag; the second component is the files
  it leaves. It does not call the delegate when the weight file is there.
\<close>

definition download_model :: "env \<Rightarrow> ppath \<Rightarrow> string \<Rightarrow> string \<Rightarrow> fs \<Rightarrow> bool \<times> fs" where
  "download_model env weights_dir version model files =
     (let nm = (if endswith model ''.pt'' then model else model @ ''.pt'');
          model_path = model_file_path weights_dir nm
      in if path_exists (getcwd env) files model_path then (True, files)
         else (case YOLO env (str_path model_path) files of
                 (printed, files', None) \<Rightarrow> (path_exists (getcwd env) files' model_path, files')
               | (printed, files', Some e) \<Rightarrow> (False, files')))"

section \<open>The compile task (\<^verbatim>\<open>EngineExportWorker.run\<close>)\<close>

text \<open>
  The precision is one of the three tags \<^verbatim>\<open>_build_engine\<close> is connected with, the
  only caller that builds the worker. The calibration reference is the string its
  \<^verbatim>\<open>Path\<close> was built from, \<open>None\<close> when unset.
\<close>

datatype precision = FP32 | FP16 | INT8

fun prec_str :: "precision \<Rightarrow> string" where
  "prec_str FP32 = ''fp32''"
| "prec_str FP16 = ''fp16''"
| "prec_str INT8 = ''int8''"

record export_worker =
  model_name :: string
  precision :: precision
  device :: string
  calibration_yaml_path :: "string option"

text \<open>
  The state a run threads through: the files, the lines sent on \<^verbatim>\<open>output\<close>, the
  variable \<^verbatim>\<open>temp_yaml_file\<close>, and a record of the call of \<^verbatim>\<open>subprocess.Popen\<close>
  if one was made (its argument vector and the files at that moment).
\<close>

record xstate =
  x_files :: fs
  x_output :: "string list"
  temp_yaml_file :: "string option"
  x_popen_call :: "(string list \<times> fs) option"

type_synonym done_signal = "bool \<times> string \<times> string \<times> string"

definition emit :: "xstate \<Rightarrow> string \<Rightarrow> xstate" where
  "emit s line = s\<lparr>x_output := x_output s @ [line]\<rparr>"

text \<open>
  \<^verbatim>\<open>open(p, "r")\<close> followed by \<^verbatim>\<open>yaml.safe_load\<close>: bytes that are no text raise a
  \<^verbatim>\<open>UnicodeDecodeError\<close>, which is a \<^verbatim>\<open>ValueError\<close>; text that is no YAML raises an
  error of the parser; everything else is returned.
\<close>

definition safe_load :: "string \<Rightarrow> fs \<Rightarrow> ppath \<Rightarrow> exn + ydoc" where
  "safe_load cwd files p =
     (case files (locate cwd p) of
        None \<Rightarrow> Inl (Exn FileNotFoundError ''[Errno 2] No such file or directory'')
      | Some (Opaque b) \<Rightarrow> Inl (Exn ValueError ''codec cannot decode byte'')
      | Some (Descriptor Malformed) \<Rightarrow> Inl (Exn OtherError ''could not parse the YAML document'')
      | Some (Descriptor d) \<Rightarrow> Inr d)"

text \<open>
  \<^verbatim>\<open>k in data\<close>, \<^verbatim>\<open>data[k]\<close> and \<^verbatim>\<open>data[k] = v\<close> on what was loaded: membership is
  among the keys of a mapping, the elements of a sequence, the substrings of a string,
  and raises \<^verbatim>\<open>TypeError\<close> on anything else; only a mapping can be indexed by a
  string.
\<close>

definition contains_key :: "ydoc \<Rightarrow> string \<Rightarrow> exn + bool" where
  "contains_key data k =
     (case data of
        Mapping m \<Rightarrow> Inr (case m k of None \<Rightarrow> False | Some v \<Rightarrow> True)
      | Sequence xs \<Rightarrow> Inr (YStr k \<in> set xs)
      | Scalar s \<Rightarrow> Inr (py_in k s)
      | _ \<Rightarrow> Inl (Exn TypeError ''argument is not iterable''))"

definition getitem :: "ydoc \<Rightarrow> string \<Rightarrow> exn + yval" where
  "getitem data k =
     (case data of
        Mapping m \<Rightarrow> (case m k of None \<Rightarrow> Inl (Exn OtherError k) | Some v \<Rightarrow> Inr v)
      | _ \<Rightarrow> Inl (Exn TypeError ''indices must be integers or slices, not str''))"

definition setitem :: "ydoc \<Rightarrow> string \<Rightarrow> yval \<Rightarrow> ydoc" where
  "setitem data k v = (case data of Mapping m \<Rightarrow> Mapping (m(k \<mapsto> v)) | _ \<Rightarrow> data)"

text \<open>
  \<^verbatim>\<open>str((yaml_dir / v).resolve())\<close>; joining a path with a value that is no string
  raises \<^verbatim>\<open>TypeError\<close>.
\<close>

definition resolved_str :: "string \<Rightarrow> ppath \<Rightarrow> string \<Rightarrow> string" where
  "resolved_str cwd yaml_dir s = str_path (resolve cwd (joinpath yaml_dir s))"

text \<open>
  \<^verbatim>\<open>if "path" in data: data["path"] = str((yaml_dir / data["path"]).resolve())\<close>.
\<close>

definition resolve_path_key :: "string \<Rightarrow> ppath \<Rightarrow> ydoc \<Rightarrow> exn + ydoc" where
  "resolve_path_key cwd yaml_dir data =
     (case contains_key data ''path'' of
        Inl e \<Rightarrow> Inl e
      | Inr False \<Rightarrow> Inr data
      | Inr True \<Rightarrow>
          (case getitem data ''path'' of
             Inl e \<Rightarrow> Inl e
           | Inr YOther \<Rightarrow> Inl (Exn TypeError ''unsupported operand type(s) for /'')
           | Inr (YStr s) \<Rightarrow> Inr (setitem data ''path'' (YStr (resolved_str cwd yaml_dir s)))))"

text \<open>
  The statement the source writes once for \<^verbatim>\<open>train\<close> and once for \<^verbatim>\<open>val\<close>:
  \<^verbatim>\<open>if k in data and not os.path.isabs(data[k]): data[k] = str((yaml_dir / data[k]).resolve())\<close>;
  \<^verbatim>\<open>os.path.isabs\<close> raises \<^verbatim>\<open>TypeError\<close> on a value that is no string.
\<close>

definition resolve_rel_key :: "string \<Rightarrow> ppath \<Rightarrow> string \<Rightarrow> ydoc \<Rightarrow> exn + ydoc" where
  "resolve_rel_key cwd yaml_dir k data =
     (case contains_key data k of
        Inl e \<Rightarrow> Inl e
      | Inr False \<Rightarrow> Inr data
      | Inr True \<Rightarrow>
          (case getitem data k of
             Inl e \<Rightarrow> Inl e
           | Inr YOther \<Rightarrow> Inl (Exn TypeError ''expected str, bytes or os.PathLike object'')
           | Inr (YStr s) \<Rightarrow>
               if \<not> isabs s then Inr (setitem data k (YStr (resolved_str cwd yaml_dir s)))
               else Inr data))"

definition resolve_calibration :: "string \<Rightarrow> ppath \<Rightarrow> ydoc \<Rightarrow> exn + ydoc" where
  "resolve_calibration cwd yaml_path data =
     (let yaml_dir = parent yaml_path
      in case resolve_path_key cwd yaml_dir data of
           Inl e \<Rightarrow> Inl e
         | Inr data1 \<Rightarrow>
             (case resolve_rel_key cwd yaml_dir ''train'' data1 of
                Inl e \<Rightarrow> Inl e
              | Inr data2 \<Rightarrow> resolve_rel_key cwd yaml_dir ''val'' data2))"

text \<open>
  \<^verbatim>\<open>tempfile.NamedTemporaryFile(mode="w", delete=False, suffix=".yaml")\<close>: the first
  candidate \<^verbatim>\<open>tmp<random>.yaml\<close> in the temporary directory that does not exist yet,
  by its absolute name; no candidate left raises \<^verbatim>\<open>FileExistsError\<close>.
\<close>

definition temp_candidates :: "env \<Rightarrow> string list" where
  "temp_candidates env =
     map (\<lambda>r. str_path (resolve (getcwd env)
                 (joinpath (Path (gettempdir env)) (''tmp'' @ r @ ''.yaml''))))
         (random_names env)"

definition NamedTemporaryFile :: "env \<Rightarrow> fs \<Rightarrow> exn + string" where
  "NamedTemporaryFile env files =
     (case find (\<lambda>n. \<not> path_exists (getcwd env) files (Path n)) (temp_candidates env) of
        None \<Rightarrow> Inl (Exn OtherError ''No usable temporary file name found'')
      | Some n \<Rightarrow> Inr n)"

text \<open>
  Lines 120 to 150: the precision branch, which extends the argument vector. The
  temporary file is there, empty, as soon as \<^verbatim>\<open>NamedTemporaryFile\<close> returns;
  \<^verbatim>\<open>temp_yaml_file\<close> is bound after \<^verbatim>\<open>yaml.dump\<close>, so not when the dump raises.
  What a dump that raises had written by then is not modelled: the file is left as an
  empty document.
\<close>

definition calibration_error :: exn where
  "calibration_error =
     Exn ValueError ''INT8 calibration requires a valid calibration YAML file to be selected.''"

definition precision_args ::
  "env \<Rightarrow> export_worker \<Rightarrow> string list \<Rightarrow> xstate \<Rightarrow> xstate \<times> (exn + string list)" where
  "precision_args env w cmd s =
     (case precision w of
        FP16 \<Rightarrow> (s, Inr (cmd @ [''half'']))
      | INT8 \<Rightarrow>
          (case calibration_yaml_path w of
             None \<Rightarrow> (s, Inl calibration_error)
           | Some cp \<Rightarrow>
               if \<not> path_exists (getcwd env) (x_files s) (Path cp)
               then (s, Inl calibration_error)
               else
                 (case safe_load (getcwd env) (x_files s) (Path cp) of
                    Inl e \<Rightarrow> (s, Inl e)
                  | Inr data \<Rightarrow>
                      (case resolve_calibration (getcwd env) (Path cp) data of
                         Inl e \<Rightarrow> (s, Inl e)
                       | Inr data' \<Rightarrow>
                           (case NamedTemporaryFile env (x_files s) of
                              Inl e \<Rightarrow> (s, Inl e)
                            | Inr tname \<Rightarrow>
                                (case yaml_dump env data' of
                                   Some e \<Rightarrow>
                                     (s\<lparr>x_files := (x_files s)
                                          (locate (getcwd env) (Path tname) \<mapsto> Descriptor Null)\<rparr>,
                                      Inl e)
                                 | None \<Rightarrow>
                                     (s\<lparr>x_files := (x_files s)
                                          (locate (getcwd env) (Path tname) \<mapsto> Descriptor data'),
                                        temp_yaml_file := Some tname\<rparr>,
                                      Inr (cmd @ [''int8'', ''data='' @ tname])))))))
      | FP32 \<Rightarrow> (s, Inr cmd))"

text \<open>\<^verbatim>\<open>os.rename(src, dst)\<close> on POSIX: an existing destination is replaced.\<close>

definition rename :: "fs \<Rightarrow> location \<Rightarrow> location \<Rightarrow> fs" where
  "rename files src dst = (if src = dst then files else (files(dst := files src))(src := None))"

text \<open>
  Lines 152 to 194: the process, then the artifact. An exception that ends the loop
  over the output leaves the \<^verbatim>\<open>try\<close> body before the exit code is looked at.
\<close>

definition run_compiler ::
  "env \<Rightarrow> export_worker \<Rightarrow> ppath \<Rightarrow> string list \<Rightarrow> xstate \<Rightarrow> xstate \<times> (exn + done_signal)" where
  "run_compiler env w model_path cmd s =
     (let s0 = s\<lparr>x_popen_call := Some (cmd, x_files s)\<rparr>
      in case Popen env cmd (x_files s) of
           Inl e \<Rightarrow> (s0, Inl e)
         | Inr (lines, raised, returncode, files') \<Rightarrow>
             (let s1 = s0\<lparr>x_files := files', x_output := x_output s0 @ map strip lines\<rparr>
              in if raised \<noteq> None then (s1, Inl (the raised))
                 else if returncode = 0 then
                   (let generic_engine_path =
                          joinpath (parent model_path) (stem model_path @ ''.engine'')
                    in if path_exists (getcwd env) files' generic_engine_path then
                         (case with_name generic_engine_path
                                 (stem generic_engine_path @ ''-'' @ prec_str (precision w) @ ''.engine'') of
                            None \<Rightarrow> (s1, Inl (Exn ValueError ''Invalid name''))
                          | Some new_engine_path \<Rightarrow>
                              (let s2 = s1\<lparr>x_files := rename files'
                                             (locate (getcwd env) generic_engine_path)
                                             (locate (getcwd env) new_engine_path)\<rparr>;
                                   s3 = emit s2 (''Engine build successful. Renamed to '' @
                                                 name new_engine_path @ ''.'')
                               in (s3, Inr (True, model_name w, prec_str (precision w),
                                            ''Engine build successful.''))))
                       else
                         (emit s1 ''Engine build failed. Engine file not found.'',
                          Inr (False, model_name w, prec_str (precision w),
                               ''Failed to create TensorRT engine.'')))
                 else
                   (emit s1 (''Engine build failed with exit code '' @ str_int returncode @ ''.''),
                    Inr (False, model_name w, prec_str (precision w), ''Engine build failed.''))))"

text \<open>The body of the \<^verbatim>\<open>try\<close>: \<open>Inl\<close> is an exception leaving it.\<close>

definition export_try :: "env \<Rightarrow> export_worker \<Rightarrow> fs \<Rightarrow> xstate \<times> (exn + done_signal)" where
  "export_try env w files =
     (let weights_dir = Path (weights_dir_setting env);
          model_path = joinpath weights_dir (model_name w @ ''.pt'');
          s0 = \<lparr>x_files = files, x_output = [], temp_yaml_file = None, x_popen_call = None\<rparr>
      in if \<not> path_exists (getcwd env) files model_path
         then (s0, Inl (Exn FileNotFoundError
                 (''Model file not found at '' @ str_path model_path @
                  ''. Please download the model first.'')))
         else
           (let s1 = emit s0 (''Starting to build TensorRT engine for '' @ model_name w @
                              '' at '' @ prec_str (precision w) @ '' precision...'');
                cmd = [''yolo'', ''export'', ''model='' @ str_path model_path,
                       ''format=engine'', ''device='' @ device w]
            in case precision_args env w cmd s1 of
                 (s2, Inl e) \<Rightarrow> (s2, Inl e)
               | (s2, Inr cmd') \<Rightarrow> run_compiler env w model_path cmd' s2))"

text \<open>The two \<^verbatim>\<open>except\<close> clauses: both send the failure with the text of the exception.\<close>

definition handle_exn :: "export_worker \<Rightarrow> exn \<Rightarrow> xstate \<Rightarrow> xstate \<times> done_signal" where
  "handle_exn w e s =
     (if exn_class_of e \<in> {ValueError, FileNotFoundError, SyntaxError}
      then (emit s (''Error: '' @ exn_str e),
            (False, model_name w, prec_str (precision w), exn_str e))
      else (emit s (''An unexpected error occurred: '' @ exn_str e),
            (False, model_name w, prec_str (precision w), exn_str e)))"

text \<open>
  The \<^verbatim>\<open>finally\<close> clause:
  \<^verbatim>\<open>if temp_yaml_file and os.path.exists(temp_yaml_file): os.remove(temp_yaml_file)\<close>.
\<close>

definition remove_temp :: "string \<Rightarrow> string option \<Rightarrow> fs \<Rightarrow> fs" where
  "remove_temp cwd temp files =
     (case temp of
        None \<Rightarrow> files
      | Some t \<Rightarrow>
          if t \<noteq> [] \<and> path_exists cwd files (Path t)
          then files(locate cwd (Path t) := None)
          else files)"

definition cleanup :: "string \<Rightarrow> xstate \<Rightarrow> fs" where
  "cleanup cwd s = remove_temp cwd (temp_yaml_file s) (x_files s)"

record export_result =
  ex_output :: "string list"
  ex_done :: done_signal
  ex_popen_call :: "(string list \<times> fs) option"
  ex_temp :: "string option"
  ex_files :: fs

text \<open>What follows the \<^verbatim>\<open>try\<close> body: the handler if it raised, then the \<^verbatim>\<open>finally\<close> clause.\<close>

definition finish :: "env \<Rightarrow> export_worker \<Rightarrow> xstate \<times> (exn + done_signal) \<Rightarrow> export_result" where
  "finish env w sr =
     (case sr of
        (s, r) \<Rightarrow>
          (case (case r of Inr d \<Rightarrow> (s, d) | Inl e \<Rightarrow> handle_exn w e s) of
             (s', d) \<Rightarrow>
               \<lparr>ex_output = x_output s',
                ex_done = d,
                ex_popen_call = x_popen_call s',
                ex_temp = temp_yaml_file s',
                ex_files = cleanup (getcwd env) s'\<rparr>))"

definition export_run :: "env \<Rightarrow> export_worker \<Rightarrow> fs \<Rightarrow> export_result" where
  "export_run env w files = finish env w (export_try env w files)"

section \<open>The window (\<^verbatim>\<open>ModelManagerWindow\<close>): state refresh\<close>

text \<open>
  The widgets the refresh reads and writes. A status label holds the flag its markup
  was made from (\<^verbatim>\<open>status_markup(b)\<close>; for \<open>model_status_label\<close> \<open>None\<close> is the empty
  text); button texts and tool tips are the strings themselves.
\<close>

record window =
  model_combo :: string
  win_calibration_yaml_path :: "string option"
  model_status_label :: "bool option"
  download_btn_text :: string
  download_btn_enabled :: bool
  lbl_fp32_status :: bool
  btn_build_fp32_text :: string
  btn_build_fp32_enabled :: bool
  btn_build_fp32_tooltip :: string
  lbl_fp16_status :: bool
  btn_build_fp16_text :: string
  btn_build_fp16_enabled :: bool
  btn_build_fp16_tooltip :: string
  lbl_int8_status :: bool
  btn_build_int8_text :: string
  btn_build_int8_enabled :: bool
  btn_build_int8_tooltip :: string
  lbl_calib_text :: string
  lbl_calib_tooltip :: string

text \<open>The widgets as \<^verbatim>\<open>_setup_ui\<close> leaves them, with a given text in the model selector.\<close>

definition setup_ui :: "string \<Rightarrow> window" where
  "setup_ui model =
     \<lparr>model_combo = model,
      win_calibration_yaml_path = None,
      model_status_label = None,
      download_btn_text = ''Download Model'',
      download_btn_enabled = True,
      lbl_fp32_status = False,
      btn_build_fp32_text = ''Build'',
      btn_build_fp32_enabled = True,
      btn_build_fp32_tooltip = [],
      lbl_fp16_status = False,
      btn_build_fp16_text = ''Build'',
      btn_build_fp16_enabled = True,
      btn_build_fp16_tooltip = [],
      lbl_int8_status = False,
      btn_build_int8_text = ''Build'',
      btn_build_int8_enabled = True,
      btn_build_int8_tooltip = [],
      lbl_calib_text = ''<i>None selected</i>'',
      lbl_calib_tooltip = ''Calibration dataset YAML used for INT8 quantization.''\<rparr>"

definition tooltip_no_gpu :: string where
  "tooltip_no_gpu =
     ''Building a TensorRT engine requires a CUDA-enabled GPU and TensorRT to be installed.''"

definition tooltip_not_downloaded :: string where
  "tooltip_not_downloaded = ''Please download the model first before building an engine.''"

definition tooltip_no_calibration :: string where
  "tooltip_no_calibration = ''Select a calibration YAML to enable INT8 build.''"

definition build_text :: "bool \<Rightarrow> string" where
  "build_text is_built = (if is_built then ''Rebuild'' else ''Build'')"

text \<open>
  \<^verbatim>\<open>_update_model_status\<close>. The manager object is always there, so the first test is
  on the selected model alone; the loop over the two precision cards is written out.
\<close>

definition update_model_status :: "env \<Rightarrow> fs \<Rightarrow> window \<Rightarrow> window" where
  "update_model_status env files ui =
     (let model = model_combo ui
      in if model = [] then
           ui\<lparr>model_status_label := None,
              download_btn_enabled := False,
              lbl_fp32_status := False,
              btn_build_fp32_enabled := False,
              lbl_fp16_status := False,
              btn_build_fp16_enabled := False,
              lbl_int8_status := False,
              btn_build_int8_enabled := False\<rparr>
         else
           (let weights_dir = Path (weights_dir_setting env);
                is_downloaded =
                  is_model_downloaded (getcwd env) files weights_dir ''Yolov8'' model;
                ui1 = ui\<lparr>model_status_label := Some is_downloaded,
                         download_btn_text :=
                           (if is_downloaded then ''Re-download Model'' else ''Download Model''),
                         download_btn_enabled := True\<rparr>;
                is_gpu_ok = (is_gpu_available env \<and> is_tensorrt_installed env);
                can_build = (is_downloaded \<and> is_gpu_ok);
                is_built32 = engine_exists (getcwd env) files weights_dir model ''fp32'';
                ui2 = ui1\<lparr>lbl_fp32_status := is_built32,
                          btn_build_fp32_text := build_text is_built32,
                          btn_build_fp32_enabled := can_build\<rparr>;
                is_built16 = engine_exists (getcwd env) files weights_dir model ''fp16'';
                ui3 = ui2\<lparr>lbl_fp16_status := is_built16,
                          btn_build_fp16_text := build_text is_built16,
                          btn_build_fp16_enabled := can_build\<rparr>;
                is_int8_built = engine_exists (getcwd env) files weights_dir model ''int8'';
                can_build_int8 =
                  (is_downloaded \<and> is_gpu_ok \<and> win_calibration_yaml_path ui \<noteq> None);
                ui4 = ui3\<lparr>lbl_int8_status := is_int8_built,
                          btn_build_int8_text := build_text is_int8_built,
                          btn_build_int8_enabled := can_build_int8\<rparr>
            in if \<not> is_gpu_ok then
                 ui4\<lparr>btn_build_fp32_tooltip := tooltip_no_gpu,
                     btn_build_fp16_tooltip := tooltip_no_gpu,
                     btn_build_int8_tooltip := tooltip_no_gpu\<rparr>
               else if \<not> is_downloaded then
                 ui4\<lparr>btn_build_fp32_tooltip := tooltip_not_downloaded,
                     btn_build_fp16_tooltip := tooltip_not_downloaded,
                     btn_build_int8_tooltip := tooltip_not_downloaded\<rparr>
               else if py_in ''INT8'' (btn_build_int8_text ui4) \<and>
                       win_calibration_yaml_path ui4 = None then
                 ui4\<lparr>btn_build_int8_tooltip := tooltip_no_calibration\<rparr>
               else ui4))"

text \<open>
  \<^verbatim>\<open>_select_calibration_data\<close>, given the file name the dialog returned (empty when
  it was dismissed).
\<close>

definition select_calibration_data :: "env \<Rightarrow> fs \<Rightarrow> window \<Rightarrow> string \<Rightarrow> window" where
  "select_calibration_data env files ui file =
     (if file \<noteq> [] then
        update_model_status env files
          (ui\<lparr>win_calibration_yaml_path := Some file,
              lbl_calib_text := ''<i>'' @ name (Path file) @ ''</i>'',
              lbl_calib_tooltip := str_path (Path file)\<rparr>)
      else
        update_model_status env files
          (ui\<lparr>win_calibration_yaml_path := None,
              lbl_calib_text := ''<i>None selected</i>'',
              lbl_calib_tooltip := ''Calibration dataset YAML used for INT8 quantization.''\<rparr>))"

section \<open>Names for the paths of a task\<close>

text \<open>
  The weight file both workers compute (\<^verbatim>\<open>weights_dir / f"{model_name}.pt"\<close>), the
  artifact the compiler is expected to leave
  (\<^verbatim>\<open>Path(model_path.parent) / f"{model_path.stem}.engine"\<close>), and the same name with
  the precision tag.
\<close>

definition worker_model_path :: "env \<Rightarrow> string \<Rightarrow> ppath" where
  "worker_model_path env m = joinpath (Path (weights_dir_setting env)) (m @ ''.pt'')"

definition generic_engine_path :: "env \<Rightarrow> string \<Rightarrow> ppath" where
  "generic_engine_path env m =
     joinpath (parent (worker_model_path env m)) (stem (worker_model_path env m) @ ''.engine'')"

definition tagged_engine_path :: "env \<Rightarrow> string \<Rightarrow> precision \<Rightarrow> ppath" where
  "tagged_engine_path env m pr =
     joinpath (parent (worker_model_path env m))
       (stem (worker_model_path env m) @ ''-'' @ prec_str pr @ ''.engine'')"

text \<open>
  The argument vector before the precision branch, and the state of a run when it
  reaches that branch.
\<close>

definition base_cmd :: "env \<Rightarrow> export_worker \<Rightarrow> string list" where
  "base_cmd env w =
     [''yolo'', ''export'', ''model='' @ str_path (worker_model_path env (model_name w)),
      ''format=engine'', ''device='' @ device w]"

definition started :: "export_worker \<Rightarrow> fs \<Rightarrow> xstate" where
  "started w files =
     \<lparr>x_files = files,
      x_output = [''Starting to build TensorRT engine for '' @ model_name w @
                  '' at '' @ prec_str (precision w) @ '' precision...''],
      temp_yaml_file = None, x_popen_call = None\<rparr>"

text \<open>The line a handler of the run logs for an exception.\<close>

definition handler_line :: "exn \<Rightarrow> string" where
  "handler_line e =
     (if exn_class_of e \<in> {ValueError, FileNotFoundError, SyntaxError}
      then ''Error: '' @ exn_str e
      else ''An unexpected error occurred: '' @ exn_str e)"

text \<open>A path component as \<^verbatim>\<open>pathlib\<close> keeps it.\<close>

definition good_component :: "string \<Rightarrow> bool" where
  "good_component c = (c \<noteq> [] \<and> c \<noteq> ''.'' \<and> CHR ''/'' \<notin> set c)"

section \<open>Example runs\<close>

text \<open>
  A catalog, file systems, environments and workers on which the theorems below are
  instantiated. In \<open>demo_env\<close> the delegate downloads a missing weight file and the
  compiler leaves \<^verbatim>\<open>/w/yolov8n.engine\<close> and exits with 0; \<open>offline_env\<close> has a
  delegate that raises, \<open>failing_env\<close> a compiler that exits with 1, \<open>silent_env\<close>
  one that exits with 0 and leaves nothing, \<open>broken_env\<close> one that cannot be started,
  \<open>garbled_env\<close> and \<open>garbled_failing_env\<close> one whose output cannot be decoded (it
  leaves the artifact and exits with 0, or exits with 3); in \<open>deep_env\<close>
  \<^verbatim>\<open>yaml.dump\<close> raises on the descriptor of \<open>deep_files\<close>, whose \<^verbatim>\<open>names\<close> value
  stands for one nested too deep.
\<close>

definition demo_catalog :: "string \<rightharpoonup> string list" where
  "demo_catalog =
     [''Yolov8'' \<mapsto> [''yolov8n'', ''yolov8n-seg'', ''yolov8s'', ''yolov8n-cls'', ''yolov8n-pose'']]"

definition demo_doc :: "string \<rightharpoonup> yval" where
  "demo_doc = [''train'' \<mapsto> YStr ''images/train'', ''val'' \<mapsto> YStr ''../val'']"

definition no_files :: fs where
  "no_files = Map.empty"

definition demo_files :: fs where
  "demo_files = [[''w'', ''yolov8n.pt''] \<mapsto> Opaque ''weights'',
                 [''data'', ''calib'', ''coco.yaml''] \<mapsto> Descriptor (Mapping demo_doc)]"

definition weights_only :: fs where
  "weights_only = [[''w'', ''yolov8n.pt''] \<mapsto> Opaque ''weights'']"

definition alias_files :: fs where
  "alias_files = [[''w'', ''yolov8n.pt''] \<mapsto> Opaque ''weights'',
                  [''w'', ''yolov8n-int8.engine''] \<mapsto> Descriptor (Mapping demo_doc)]"

definition demo_env :: env where
  "demo_env =
     \<lparr>getcwd = ''/home/user'',
      weights_dir_setting = ''/w'',
      YOLO = (\<lambda>p files.
                if path_exists ''/home/user'' files (Path p) then ([], files, None)
                else ([''Downloading''],
                      files(locate ''/home/user'' (Path p) \<mapsto> Opaque ''weights''), None)),
      Popen = (\<lambda>cmd files. Inr ([''export success ''], None, 0,
                 files([''w'', ''yolov8n.engine''] \<mapsto> Opaque ''engine''))),
      yaml_dump = (\<lambda>data. None),
      gettempdir = ''/tmp'',
      random_names = [''abc123''],
      is_gpu_available = True,
      is_tensorrt_installed = True\<rparr>"

definition offline_env :: env where
  "offline_env = demo_env\<lparr>YOLO := (\<lambda>p files. ([], files, Some (Exn OtherError ''Connection refused'')))\<rparr>"

definition failing_env :: env where
  "failing_env = demo_env\<lparr>Popen := (\<lambda>cmd files. Inr ([''error''], None, 1, files))\<rparr>"

definition silent_env :: env where
  "silent_env = demo_env\<lparr>Popen := (\<lambda>cmd files. Inr ([], None, 0, files))\<rparr>"

definition broken_env :: env where
  "broken_env = demo_env\<lparr>Popen := (\<lambda>cmd files.
      Inl (Exn FileNotFoundError ''[Errno 2] No such file or directory: yolo''))\<rparr>"

definition garbled_env :: env where
  "garbled_env = demo_env\<lparr>Popen := (\<lambda>cmd files.
      Inr ([], Some (Exn ValueError ''utf-8 codec cannot decode byte 0xff''), 0,
           files([''w'', ''yolov8n.engine''] \<mapsto> Opaque ''engine'')))\<rparr>"


definition deep_doc :: "string \<rightharpoonup> yval" where
  "deep_doc = [''train'' \<mapsto> YStr ''images/train'', ''names'' \<mapsto> YOther]"

definition deep_files :: fs where
  "deep_files = [[''w'', ''yolov8n.pt''] \<mapsto> Opaque ''weights'',
                 [''data'', ''calib'', ''deep.yaml''] \<mapsto> Descriptor (Mapping deep_doc)]"

definition deep_env :: env where
  "deep_env = demo_env\<lparr>yaml_dump := (\<lambda>data.
      case data of
        Mapping m \<Rightarrow>
          (case m ''names'' of
             Some YOther \<Rightarrow> Some (Exn OtherError ''maximum recursion depth exceeded'')
           | _ \<Rightarrow> None)
      | _ \<Rightarrow> None)\<rparr>"

definition demo_worker :: export_worker where
  "demo_worker = \<lparr>model_name = ''yolov8n'', precision = INT8, device = ''cuda:0'',
                  calibration_yaml_path = Some ''/data/calib/coco.yaml''\<rparr>"

definition deep_worker :: export_worker where
  "deep_worker = demo_worker\<lparr>calibration_yaml_path := Some ''/data/calib/deep.yaml''\<rparr>"

definition uncalibrated_worker :: export_worker where
  "uncalibrated_worker = demo_worker\<lparr>calibration_yaml_path := None\<rparr>"

definition alias_worker :: export_worker where
  "alias_worker = demo_worker\<lparr>calibration_yaml_path := Some ''/w/yolov8n-int8.engine''\<rparr>"

definition missing_calibration_worker :: export_worker where
  "missing_calibration_worker = demo_worker\<lparr>calibration_yaml_path := Some ''/data/missing.yaml''\<rparr>"

section \<open>Facts about strings and paths\<close>

lemma path_exists_iff: "path_exists cwd files p \<longleftrightarrow> files (locate cwd p) \<noteq> None"
  by (simp add: path_exists_def split: option.splits)

lemma startswith_append: "startswith (p @ s) p"
  by (induction p) auto

lemma endswith_append: "endswith (a @ b) b"
  by (simp add: endswith_def startswith_append)

lemma split_on_nonempty: "split_on c s \<noteq> []"
  by (induction s) (auto split: list.splits)

lemma split_on_no_sep: "w \<in> set (split_on c s) \<Longrightarrow> c \<notin> set w"
  by (induction s arbitrary: w) (auto split: list.splits if_splits)

lemma split_on_sepfree: "c \<notin> set s \<Longrightarrow> split_on c s = [s]"
  by (induction s) auto

lemma split_on_append_sep: "c \<notin> set w \<Longrightarrow> split_on c (w @ c # rest) = w # split_on c rest"
  by (induction w) auto

lemma split_on_join:
  "ws \<noteq> [] \<Longrightarrow> \<forall>w\<in>set ws. c \<notin> set w \<Longrightarrow> split_on c (join_with [c] ws) = ws"
proof (induction "[c]" ws rule: join_with.induct)
  case 1
  then show ?case by simp
next
  case (2 x)
  then show ?case by (simp add: split_on_sepfree)
next
  case (3 x y ys)
  then show ?case by (simp add: split_on_append_sep)
qed

lemma split_on_append_tail:
  "c \<notin> set t \<Longrightarrow>
   split_on c (a @ t) = butlast (split_on c a) @ [last (split_on c a) @ t]"
proof (induction a)
  case Nil
  then show ?case by (simp add: split_on_sepfree)
next
  case (Cons x a)
  obtain w ws where ws: "split_on c a = w # ws"
    using split_on_nonempty [of c a] by (cases "split_on c a") auto
  show ?case
    using Cons ws by (cases ws) auto
qed

lemma last_split_on_append:
  "c \<notin> set t \<Longrightarrow> last (split_on c (a @ t)) = last (split_on c a) @ t"
  by (simp add: split_on_append_tail)

lemma foldl_norm_step_good:
  "''..'' \<notin> set xs \<Longrightarrow> foldl norm_step acc xs = rev xs @ acc"
  by (induction xs arbitrary: acc) (auto simp: norm_step_def)

lemma normpath_good: "''..'' \<notin> set xs \<Longrightarrow> normpath xs = xs"
  by (simp add: normpath_def foldl_norm_step_good)

lemma normpath_snoc: "c \<noteq> ''..'' \<Longrightarrow> normpath (xs @ [c]) = normpath xs @ [c]"
  by (simp add: normpath_def norm_step_def)

lemma set_foldl_norm_step:
  "set (foldl norm_step acc xs) \<subseteq> set acc \<union> (set xs - {''..''})"
proof (induction xs arbitrary: acc)
  case Nil
  then show ?case by simp
next
  case (Cons x xs)
  have "set (norm_step acc x) \<subseteq> set acc \<union> ({x} - {''..''})"
    by (cases acc) (auto simp: norm_step_def)
  with Cons [of "norm_step acc x"] show ?case by auto
qed

lemma set_normpath: "set (normpath xs) \<subseteq> set xs - {''..''}"
  using set_foldl_norm_step [of "[]" xs] by (simp add: normpath_def)

lemma parts_Path_good: "c \<in> set (parts (Path s)) \<Longrightarrow> good_component c"
  by (auto simp: Path_def good_component_def dest: split_on_no_sep)

lemma parts_joinpath_good:
  "\<forall>c\<in>set (parts p). good_component c \<Longrightarrow> c \<in> set (parts (joinpath p s)) \<Longrightarrow> good_component c"
  by (auto simp: joinpath_def Let_def dest: parts_Path_good split: if_splits)

lemma locate_good:
  assumes "\<forall>c\<in>set (parts p). good_component c" and "c \<in> set (locate cwd p)"
  shows "good_component c \<and> c \<noteq> ''..''"
proof -
  from assms(2) have "c \<in> set ((if absolute p then [] else parts (Path cwd)) @ parts p) - {''..''}"
    using set_normpath unfolding locate_def by blast
  with assms(1) show ?thesis by (auto dest: parts_Path_good split: if_splits)
qed

lemma Path_str_location:
  assumes "\<forall>c\<in>set L. good_component c"
  shows "Path (''/'' @ join_with ''/'' L) = \<lparr>absolute = True, parts = L\<rparr>"
proof (cases "L = []")
  case True
  then show ?thesis by (simp add: Path_def)
next
  case False
  have "\<forall>w\<in>set L. CHR ''/'' \<notin> set w" using assms by (simp add: good_component_def)
  with False have "split_on CHR ''/'' (join_with ''/'' L) = L"
    using split_on_join [of L "CHR ''/''"] by simp
  moreover have "filter (\<lambda>c. c \<noteq> [] \<and> c \<noteq> ''.'') L = L"
    using assms by (simp add: good_component_def filter_id_conv)
  ultimately show ?thesis by (simp add: Path_def)
qed

lemma locate_resolved:
  assumes "\<forall>c\<in>set (parts p). good_component c"
  shows "locate cwd (Path (str_path (resolve cwd p))) = locate cwd p"
proof -
  have g: "\<forall>c\<in>set (locate cwd p). good_component c" and d: "''..'' \<notin> set (locate cwd p)"
    using locate_good [OF assms] by blast+
  have "Path (str_path (resolve cwd p)) = \<lparr>absolute = True, parts = locate cwd p\<rparr>"
    using Path_str_location [OF g] by (simp add: str_path_def resolve_def)
  moreover have "locate cwd \<lparr>absolute = True, parts = L\<rparr> = normpath L" for L
    by (simp add: locate_def)
  ultimately show ?thesis by (simp add: normpath_good [OF d])
qed

lemma startswith_slash: "startswith s ''/'' \<Longrightarrow> CHR ''/'' \<in> set s"
  by (cases s) auto

lemma Path_snoc:
  assumes "ch \<noteq> CHR ''/''" and "ch \<noteq> CHR ''.''"
  shows "parts (Path (a @ [ch])) =
           filter (\<lambda>c. c \<noteq> [] \<and> c \<noteq> ''.'') (butlast (split_on CHR ''/'' a)) @
           [last (split_on CHR ''/'' a) @ [ch]]"
proof -
  have "split_on CHR ''/'' (a @ [ch]) =
          butlast (split_on CHR ''/'' a) @ [last (split_on CHR ''/'' a) @ [ch]]"
    using assms(1) split_on_append_tail [of "CHR ''/''" "[ch]" a] by simp
  moreover have "last (split_on CHR ''/'' a) @ [ch] \<noteq> ''.''"
    using assms(2) by (cases "last (split_on CHR ''/'' a)") auto
  ultimately show ?thesis by (simp add: Path_def)
qed

lemma joinpath_snoc:
  assumes "ch \<noteq> CHR ''/''" and "ch \<noteq> CHR ''.''"
  shows "\<exists>xs. parts (joinpath p (a @ [ch])) = xs @ [last (split_on CHR ''/'' a) @ [ch]]"
  using Path_snoc [OF assms, of a] by (auto simp: joinpath_def Let_def)

lemma locate_snoc:
  assumes "parts q = xs @ [c]" and "c \<noteq> ''..''"
  shows "locate cwd q = normpath ((if absolute q then [] else parts (Path cwd)) @ xs) @ [c]"
  using assms by (simp add: locate_def normpath_snoc [symmetric])

lemma locate_joinpath_last:
  assumes "ch \<noteq> CHR ''/''" and "ch \<noteq> CHR ''.''"
  shows "locate cwd (joinpath p (a @ [ch])) \<noteq> [] \<and>
         last (last (locate cwd (joinpath p (a @ [ch])))) = ch"
proof -
  obtain xs where xs: "parts (joinpath p (a @ [ch])) = xs @ [last (split_on CHR ''/'' a) @ [ch]]"
    using joinpath_snoc [OF assms] by blast
  have "last (split_on CHR ''/'' a) @ [ch] \<noteq> ''..''"
    using assms(2) by (cases "last (split_on CHR ''/'' a)" rule: rev_cases) auto
  from locate_snoc [OF xs this] show ?thesis by simp
qed

lemma stem_of_suffix:
  assumes "x \<noteq> []" and "e \<noteq> []" and "CHR ''.'' \<notin> set e"
  shows "stem_of (x @ ''.'' @ e) = x"
proof -
  have "takeWhile (\<lambda>c. c \<noteq> CHR ''.'') (rev (x @ ''.'' @ e)) = rev e"
    using assms(3) by (auto simp: takeWhile_tail)
  then show ?thesis using assms(1,2) by (simp add: stem_of_def Let_def)
qed

lemma stem_of_nonempty: "n \<noteq> [] \<Longrightarrow> stem_of n \<noteq> []"
  by (auto simp: stem_of_def Let_def)

lemma set_stem_of: "set (stem_of n) \<subseteq> set n"
  by (auto simp: stem_of_def Let_def dest: in_set_takeD)

section \<open>The paths of a task\<close>

lemma prec_str_no_slash: "CHR ''/'' \<notin> set (prec_str pr)"
  by (cases pr) auto

lemma worker_model_path_parts:
  "\<exists>xs. parts (worker_model_path env m) = xs @ [last (split_on CHR ''/'' m) @ ''.pt'']"
proof -
  have "last (split_on CHR ''/'' (m @ ''.p'')) = last (split_on CHR ''/'' m) @ ''.p''"
    by (rule last_split_on_append) simp
  with joinpath_snoc [of "CHR ''t''" "Path (weights_dir_setting env)" "m @ ''.p''"]
  show ?thesis by (simp add: worker_model_path_def)
qed

lemma worker_model_path_good:
  "c \<in> set (parts (worker_model_path env m)) \<Longrightarrow> good_component c"
  unfolding worker_model_path_def
  by (rule parts_joinpath_good [rotated]) (auto dest: parts_Path_good)

lemma name_worker_model_path:
  "name (worker_model_path env m) = last (split_on CHR ''/'' m) @ ''.pt''"
  using worker_model_path_parts [of env m] by (auto simp: name_def)

lemma stem_worker_model_path:
  "stem (worker_model_path env m) \<noteq> [] \<and> CHR ''/'' \<notin> set (stem (worker_model_path env m))"
proof -
  let ?n = "name (worker_model_path env m)"
  have n: "?n \<noteq> []" by (simp add: name_worker_model_path)
  have "?n \<in> set (parts (worker_model_path env m))"
    using worker_model_path_parts [of env m] by (auto simp: name_def)
  then have "CHR ''/'' \<notin> set ?n"
    using worker_model_path_good by (auto simp: good_component_def)
  with set_stem_of [of ?n] stem_of_nonempty [OF n] show ?thesis
    by (auto simp: stem_def)
qed

lemma joinpath_single:
  assumes "c \<noteq> []" and "c \<noteq> ''.''" and "CHR ''/'' \<notin> set c"
  shows "joinpath p c = p\<lparr>parts := parts p @ [c]\<rparr>"
proof -
  have "\<not> startswith c ''/''" using assms(3) startswith_slash by blast
  then show ?thesis using assms by (simp add: joinpath_def Path_def split_on_sepfree)
qed

lemma generic_engine_path_eq:
  "generic_engine_path env m =
     (worker_model_path env m)
       \<lparr>parts := butlast (parts (worker_model_path env m)) @
                 [stem (worker_model_path env m) @ ''.engine'']\<rparr>"
proof -
  let ?g = "stem (worker_model_path env m) @ ''.engine''"
  have "?g \<noteq> ''.''" using stem_worker_model_path [of env m] by auto
  then show ?thesis
    using stem_worker_model_path [of env m] joinpath_single [of ?g "parent (worker_model_path env m)"]
    by (simp add: generic_engine_path_def parent_def)
qed

lemma tagged_engine_path_eq:
  "tagged_engine_path env m pr =
     (worker_model_path env m)
       \<lparr>parts := butlast (parts (worker_model_path env m)) @
                 [stem (worker_model_path env m) @ ''-'' @ prec_str pr @ ''.engine'']\<rparr>"
proof -
  let ?g = "stem (worker_model_path env m) @ ''-'' @ prec_str pr @ ''.engine''"
  have "?g \<noteq> ''.''" using stem_worker_model_path [of env m] by (cases "stem (worker_model_path env m)") auto
  then show ?thesis
    using stem_worker_model_path [of env m] prec_str_no_slash [of pr]
      joinpath_single [of ?g "parent (worker_model_path env m)"]
    by (simp add: tagged_engine_path_def parent_def)
qed

lemma with_name_generic:
  "with_name (generic_engine_path env m)
     (stem (generic_engine_path env m) @ ''-'' @ prec_str pr @ ''.engine'') =
   Some (tagged_engine_path env m pr)"
proof -
  let ?s = "stem (worker_model_path env m)"
  have s: "?s \<noteq> []" "CHR ''/'' \<notin> set ?s" using stem_worker_model_path [of env m] by auto
  have nm: "name (generic_engine_path env m) = ?s @ ''.engine''"
    by (simp add: generic_engine_path_eq name_def)
  have "stem_of (?s @ ''.'' @ ''engine'') = ?s"
    by (rule stem_of_suffix) (use s in auto)
  then have st: "stem (generic_engine_path env m) = ?s"
    by (simp add: stem_def nm)
  show ?thesis
    using s prec_str_no_slash [of pr]
    by (simp add: with_name_def nm st) (simp add: generic_engine_path_eq tagged_engine_path_eq)
qed

lemma engine_locations:
  "\<exists>X. locate cwd (generic_engine_path env m) = X @ [stem (worker_model_path env m) @ ''.engine''] \<and>
       locate cwd (tagged_engine_path env m pr) =
         X @ [stem (worker_model_path env m) @ ''-'' @ prec_str pr @ ''.engine'']"
proof -
  let ?s = "stem (worker_model_path env m)"
  have a: "?s @ ''.engine'' \<noteq> ''..''" by (cases ?s rule: rev_cases) auto
  have b: "?s @ ''-'' @ prec_str pr @ ''.engine'' \<noteq> ''..''"
    using append_eq_append_conv [of "?s @ ''-'' @ prec_str pr @ ''.engin''" "''.''" "''e''" "''.''"]
    by auto
  show ?thesis
    using locate_snoc [OF _ a, of "generic_engine_path env m" _ cwd]
          locate_snoc [OF _ b, of "tagged_engine_path env m pr" _ cwd]
    by (simp add: generic_engine_path_eq tagged_engine_path_eq)
qed

lemma engine_locations_distinct:
  "locate cwd (generic_engine_path env m) \<noteq> locate cwd (tagged_engine_path env m pr)"
  using engine_locations [of cwd env m pr] by (cases pr) auto

lemma generic_engine_last:
  "locate cwd (generic_engine_path env m) \<noteq> [] \<and>
   last (last (locate cwd (generic_engine_path env m))) = CHR ''e''"
  using engine_locations [of cwd env m FP32] by auto

lemma tagged_engine_last:
  "locate cwd (tagged_engine_path env m pr) \<noteq> [] \<and>
   last (last (locate cwd (tagged_engine_path env m pr))) = CHR ''e''"
  using engine_locations [of cwd env m pr] by auto

section \<open>Facts about the compile task\<close>

lemma NamedTemporaryFile_Inr:
  assumes "NamedTemporaryFile env files = Inr t"
  shows "t \<in> set (temp_candidates env) \<and> \<not> path_exists (getcwd env) files (Path t)"
  using assms
  by (auto simp: NamedTemporaryFile_def find_Some_iff in_set_conv_nth split: option.splits)

lemma temp_candidate_location:
  assumes "t \<in> set (temp_candidates env)"
  shows "t \<noteq> [] \<and> locate (getcwd env) (Path t) \<noteq> [] \<and>
         last (last (locate (getcwd env) (Path t))) = CHR ''l''"
proof -
  from assms obtain r where
    t: "t = str_path (resolve (getcwd env)
                (joinpath (Path (gettempdir env)) (''tmp'' @ r @ ''.yaml'')))"
    by (auto simp: temp_candidates_def)
  let ?q = "joinpath (Path (gettempdir env)) ((''tmp'' @ r @ ''.yam'') @ ''l'')"
  have g: "\<forall>c\<in>set (parts ?q). good_component c"
    by (auto intro: parts_joinpath_good [rotated] dest: parts_Path_good)
  have "locate (getcwd env) (Path t) = locate (getcwd env) ?q"
    using locate_resolved [OF g, of "getcwd env"] by (simp add: t)
  moreover have "locate (getcwd env) ?q \<noteq> [] \<and> last (last (locate (getcwd env) ?q)) = CHR ''l''"
    by (rule locate_joinpath_last) simp_all
  moreover have "t \<noteq> []" by (simp add: t str_path_def resolve_def)
  ultimately show ?thesis by simp
qed

lemma temp_not_engine:
  assumes "t \<in> set (temp_candidates env)"
  shows "locate (getcwd env) (Path t) \<noteq> locate (getcwd env) (generic_engine_path env m)"
    and "locate (getcwd env) (Path t) \<noteq> locate (getcwd env) (tagged_engine_path env m pr)"
  using temp_candidate_location [OF assms] generic_engine_last [of "getcwd env" env m]
    tagged_engine_last [of "getcwd env" env m pr]
  by auto

lemma precision_args_Inl:
  assumes "precision_args env w cmd s = (s', Inl e)"
  shows "s' = s \<or>
         (\<exists>cp data data' t.
            precision w = INT8 \<and>
            calibration_yaml_path w = Some cp \<and>
            x_files s (locate (getcwd env) (Path cp)) = Some (Descriptor data) \<and>
            resolve_calibration (getcwd env) (Path cp) data = Inr data' \<and>
            NamedTemporaryFile env (x_files s) = Inr t \<and>
            yaml_dump env data' = Some e \<and>
            s' = s\<lparr>x_files := (x_files s)(locate (getcwd env) (Path t) \<mapsto> Descriptor Null)\<rparr>)"
  using assms
  by (auto simp: precision_args_def safe_load_def
           split: precision.splits option.splits if_splits sum.splits ydoc.splits fcontent.splits)

lemma precision_args_Inr:
  assumes "precision_args env w cmd s = (s', Inr cmd')"
  shows "(precision w = FP32 \<and> s' = s \<and> cmd' = cmd) \<or>
         (precision w = FP16 \<and> s' = s \<and> cmd' = cmd @ [''half'']) \<or>
         (precision w = INT8 \<and>
          (\<exists>cp data data' t.
             calibration_yaml_path w = Some cp \<and>
             x_files s (locate (getcwd env) (Path cp)) = Some (Descriptor data) \<and>
             resolve_calibration (getcwd env) (Path cp) data = Inr data' \<and>
             NamedTemporaryFile env (x_files s) = Inr t \<and>
             yaml_dump env data' = None \<and>
             s' = s\<lparr>x_files := (x_files s)
                        (locate (getcwd env) (Path t) \<mapsto> Descriptor data'),
                    temp_yaml_file := Some t\<rparr> \<and>
             cmd' = cmd @ [''int8'', ''data='' @ t]))"
  using assms
  by (auto simp: precision_args_def safe_load_def
           split: precision.splits option.splits if_splits sum.splits ydoc.splits fcontent.splits)

lemma remove_temp_Some:
  "t \<noteq> [] \<Longrightarrow> remove_temp cwd (Some t) files = files(locate cwd (Path t) := None)"
  by (auto simp: remove_temp_def path_exists_iff)

lemma remove_temp_None: "remove_temp cwd None files = files"
  by (simp add: remove_temp_def)

lemma export_try_eq:
  "export_try env w files =
     (if \<not> path_exists (getcwd env) files (worker_model_path env (model_name w))
      then (\<lparr>x_files = files, x_output = [], temp_yaml_file = None, x_popen_call = None\<rparr>,
            Inl (Exn FileNotFoundError
                 (''Model file not found at '' @ str_path (worker_model_path env (model_name w)) @
                  ''. Please download the model first.'')))
      else
        (case precision_args env w (base_cmd env w) (started w files) of
           (s2, Inl e) \<Rightarrow> (s2, Inl e)
         | (s2, Inr cmd') \<Rightarrow> run_compiler env w (worker_model_path env (model_name w)) cmd' s2))"
  unfolding export_try_def worker_model_path_def Let_def emit_def base_cmd_def started_def by simp

lemma run_compiler_eq:
  "run_compiler env w (worker_model_path env (model_name w)) cmd s =
     (case Popen env cmd (x_files s) of
        Inl e \<Rightarrow> (s\<lparr>x_popen_call := Some (cmd, x_files s)\<rparr>, Inl e)
      | Inr (lines, raised, returncode, files') \<Rightarrow>
          if raised \<noteq> None then
            (s\<lparr>x_popen_call := Some (cmd, x_files s), x_files := files',
               x_output := x_output s @ map strip lines\<rparr>,
             Inl (the raised))
          else if returncode = 0 then
            if path_exists (getcwd env) files' (generic_engine_path env (model_name w)) then
              (s\<lparr>x_popen_call := Some (cmd, x_files s),
                 x_files := rename files'
                   (locate (getcwd env) (generic_engine_path env (model_name w)))
                   (locate (getcwd env) (tagged_engine_path env (model_name w) (precision w))),
                 x_output := x_output s @ map strip lines @
                   [''Engine build successful. Renamed to '' @
                    name (tagged_engine_path env (model_name w) (precision w)) @ ''.'']\<rparr>,
               Inr (True, model_name w, prec_str (precision w), ''Engine build successful.''))
            else
              (s\<lparr>x_popen_call := Some (cmd, x_files s), x_files := files',
                 x_output := x_output s @ map strip lines @
                   [''Engine build failed. Engine file not found.'']\<rparr>,
               Inr (False, model_name w, prec_str (precision w),
                    ''Failed to create TensorRT engine.''))
          else
            (s\<lparr>x_popen_call := Some (cmd, x_files s), x_files := files',
               x_output := x_output s @ map strip lines @
                 [''Engine build failed with exit code '' @ str_int returncode @ ''.'']\<rparr>,
             Inr (False, model_name w, prec_str (precision w), ''Engine build failed.'')))"
proof -
  have g: "joinpath (parent (worker_model_path env (model_name w)))
             (stem (worker_model_path env (model_name w)) @ ''.engine'') =
           generic_engine_path env (model_name w)"
    by (simp add: generic_engine_path_def)
  show ?thesis
    unfolding run_compiler_def Let_def g
    by (simp add: with_name_generic [simplified] emit_def split: sum.splits prod.splits)
qed

lemma finish_run_compiler:
  "finish env w (run_compiler env w (worker_model_path env (model_name w)) cmd s) =
     (case Popen env cmd (x_files s) of
        Inl e \<Rightarrow>
          \<lparr>ex_output = x_output s @ [handler_line e],
           ex_done = (False, model_name w, prec_str (precision w), exn_str e),
           ex_popen_call = Some (cmd, x_files s),
           ex_temp = temp_yaml_file s,
           ex_files = remove_temp (getcwd env) (temp_yaml_file s) (x_files s)\<rparr>
      | Inr (lines, raised, returncode, files') \<Rightarrow>
          if raised \<noteq> None then
            \<lparr>ex_output = x_output s @ map strip lines @ [handler_line (the raised)],
             ex_done = (False, model_name w, prec_str (precision w), exn_str (the raised)),
             ex_popen_call = Some (cmd, x_files s),
             ex_temp = temp_yaml_file s,
             ex_files = remove_temp (getcwd env) (temp_yaml_file s) files'\<rparr>
          else if returncode = 0 then
            if path_exists (getcwd env) files' (generic_engine_path env (model_name w)) then
              \<lparr>ex_output = x_output s @ map strip lines @
                   [''Engine build successful. Renamed to '' @
                    name (tagged_engine_path env (model_name w) (precision w)) @ ''.''],
               ex_done = (True, model_name w, prec_str (precision w), ''Engine build successful.''),
               ex_popen_call = Some (cmd, x_files s),
               ex_temp = temp_yaml_file s,
               ex_files = remove_temp (getcwd env) (temp_yaml_file s)
                 (rename files'
                   (locate (getcwd env) (generic_engine_path env (model_name w)))
                   (locate (getcwd env) (tagged_engine_path env (model_name w) (precision w))))\<rparr>
            else
              \<lparr>ex_output = x_output s @ map strip lines @
                   [''Engine build failed. Engine file not found.''],
               ex_done = (False, model_name w, prec_str (precision w),
                          ''Failed to create TensorRT engine.''),
               ex_popen_call = Some (cmd, x_files s),
               ex_temp = temp_yaml_file s,
               ex_files = remove_temp (getcwd env) (temp_yaml_file s) files'\<rparr>
          else
            \<lparr>ex_output = x_output s @ map strip lines @
                 [''Engine build failed with exit code '' @ str_int returncode @ ''.''],
             ex_done = (False, model_name w, prec_str (precision w), ''Engine build failed.''),
             ex_popen_call = Some (cmd, x_files s),
             ex_temp = temp_yaml_file s,
             ex_files = remove_temp (getcwd env) (temp_yaml_file s) files'\<rparr>)"
  by (simp add: run_compiler_eq finish_def handle_exn_def handler_line_def emit_def cleanup_def
           split: sum.splits prod.splits)

lemma precision_args_frame:
  assumes "precision_args env w cmd s = (s', r)"
  shows "x_popen_call s' = x_popen_call s \<and> x_output s' = x_output s"
proof (cases r)
  case (Inl e)
  with assms precision_args_Inl [of env w cmd s s' e] show ?thesis by auto
next
  case (Inr cmd')
  with assms precision_args_Inr [of env w cmd s s' cmd'] show ?thesis by auto
qed

lemma export_run_eq:
  "export_run env w files =
     (if \<not> path_exists (getcwd env) files (worker_model_path env (model_name w))
      then \<lparr>ex_output = [''Error: '' @ ''Model file not found at '' @
                           str_path (worker_model_path env (model_name w)) @
                           ''. Please download the model first.''],
            ex_done = (False, model_name w, prec_str (precision w),
                       ''Model file not found at '' @
                       str_path (worker_model_path env (model_name w)) @
                       ''. Please download the model first.''),
            ex_popen_call = None, ex_temp = None, ex_files = files\<rparr>
      else
        (case precision_args env w (base_cmd env w) (started w files) of
           (s2, Inl e) \<Rightarrow>
             \<lparr>ex_output = x_output (started w files) @ [handler_line e],
              ex_done = (False, model_name w, prec_str (precision w), exn_str e),
              ex_popen_call = None, ex_temp = None, ex_files = x_files s2\<rparr>
         | (s2, Inr cmd') \<Rightarrow>
             finish env w (run_compiler env w (worker_model_path env (model_name w)) cmd' s2)))"
proof (cases "path_exists (getcwd env) files (worker_model_path env (model_name w))")
  case False
  then show ?thesis
    by (simp add: export_run_def export_try_eq finish_def handle_exn_def emit_def cleanup_def
          remove_temp_def)
next
  case True
  obtain s2 r where pa: "precision_args env w (base_cmd env w) (started w files) = (s2, r)"
    by (cases "precision_args env w (base_cmd env w) (started w files)") auto
  show ?thesis
  proof (cases r)
    case (Inl e)
    with pa precision_args_Inl [of env w "base_cmd env w" "started w files" s2 e]
    have "temp_yaml_file s2 = None \<and> x_popen_call s2 = None \<and>
          x_output s2 = x_output (started w files)"
      by (auto simp: started_def)
    with True pa Inl show ?thesis
      by (simp add: export_run_def export_try_eq finish_def handle_exn_def handler_line_def
            emit_def cleanup_def remove_temp_def)
  next
    case (Inr cmd')
    with True pa show ?thesis by (simp add: export_run_def export_try_eq)
  qed
qed




text \<open>What is known of a run in which Popen was called.\<close>

lemma export_run_called:
  assumes "ex_popen_call (export_run env w files) = Some (cmd, f1)"
  shows "\<exists>s2. path_exists (getcwd env) files (worker_model_path env (model_name w)) \<and>
              precision_args env w (base_cmd env w) (started w files) = (s2, Inr cmd) \<and>
              x_files s2 = f1 \<and>
              export_run env w files =
                finish env w (run_compiler env w (worker_model_path env (model_name w)) cmd s2)"
proof -
  have ex: "path_exists (getcwd env) files (worker_model_path env (model_name w))"
    using assms by (auto simp: export_run_eq split: if_splits)
  obtain s2 r where pa: "precision_args env w (base_cmd env w) (started w files) = (s2, r)"
    by (cases "precision_args env w (base_cmd env w) (started w files)") auto
  show ?thesis
  proof (cases r)
    case (Inl e)
    with assms ex pa show ?thesis by (simp add: export_run_eq)
  next
    case (Inr cmd')
    with ex pa have run: "export_run env w files =
        finish env w (run_compiler env w (worker_model_path env (model_name w)) cmd' s2)"
      by (simp add: export_run_eq)
    with assms have "cmd' = cmd \<and> x_files s2 = f1"
      by (auto simp: finish_run_compiler split: sum.splits prod.splits if_splits)
    with ex pa Inr run show ?thesis by auto
  qed
qed

lemma temp_after_precision_args:
  assumes "precision_args env w cmd s = (s2, Inr cmd')" and "temp_yaml_file s = None"
  shows "temp_yaml_file s2 = None \<or>
         (\<exists>t. temp_yaml_file s2 = Some t \<and> t \<in> set (temp_candidates env) \<and> t \<noteq> [])"
  using precision_args_Inr [OF assms(1)] assms(2)
  by (auto dest!: NamedTemporaryFile_Inr dest: temp_candidate_location)

lemma remove_temp_other:
  assumes "temp = None \<or> (\<exists>t. temp = Some t \<and> L \<noteq> locate cwd (Path t))"
  shows "remove_temp cwd temp files L = files L"
  using assms by (auto simp: remove_temp_def)

lemma remove_temp_engine:
  assumes "temp = None \<or> (\<exists>t. temp = Some t \<and> t \<in> set (temp_candidates env))"
  shows "remove_temp (getcwd env) temp files (locate (getcwd env) (generic_engine_path env m)) =
           files (locate (getcwd env) (generic_engine_path env m))"
    and "remove_temp (getcwd env) temp files (locate (getcwd env) (tagged_engine_path env m pr)) =
           files (locate (getcwd env) (tagged_engine_path env m pr))"
proof -
  show "remove_temp (getcwd env) temp files (locate (getcwd env) (generic_engine_path env m)) =
           files (locate (getcwd env) (generic_engine_path env m))"
    using assms temp_not_engine(1) [of _ env m]
    by (intro remove_temp_other) metis
  show "remove_temp (getcwd env) temp files (locate (getcwd env) (tagged_engine_path env m pr)) =
           files (locate (getcwd env) (tagged_engine_path env m pr))"
    using assms temp_not_engine(2) [of _ env m pr]
    by (intro remove_temp_other) metis
qed

text \<open>A run that called the compiler, by its argument vector and the files it saw.\<close>

lemma called_obtain:
  assumes "case ex_popen_call r of None \<Rightarrow> False | Some x \<Rightarrow> True"
  obtains cmd f1 where "ex_popen_call r = Some (cmd, f1)"
  using assms by (cases "ex_popen_call r") auto

text \<open>
  Claim C2. When the weight file \<^verbatim>\<open><model>.pt\<close> is not in the weights directory, or the
  precision is int8 and the calibration reference is unset or names a file that does
  not exist, the run ends with a failure outcome and never calls \<^verbatim>\<open>subprocess.Popen\<close>
  (and leaves the files as they were). The message is the prerequisite one when the
  weight file is missing, the validation one otherwise.
\<close>

theorem export_run_preconditions:
  assumes "\<not> path_exists (getcwd env) files (worker_model_path env (model_name w)) \<or>
           (precision w = INT8 \<and>
            (calibration_yaml_path w = None \<or>
             (\<exists>cp. calibration_yaml_path w = Some cp \<and>
                   \<not> path_exists (getcwd env) files (Path cp))))"
  shows "ex_done (export_run env w files) =
           (False, model_name w, prec_str (precision w),
            if \<not> path_exists (getcwd env) files (worker_model_path env (model_name w))
            then ''Model file not found at '' @
                 str_path (worker_model_path env (model_name w)) @
                 ''. Please download the model first.''
            else ''INT8 calibration requires a valid calibration YAML file to be selected.'') \<and>
         ex_popen_call (export_run env w files) = None \<and>
         ex_files (export_run env w files) = files"
proof (cases "path_exists (getcwd env) files (worker_model_path env (model_name w))")
  case False
  then show ?thesis by (simp add: export_run_eq)
next
  case True
  with assms have c: "precision w = INT8"
    "calibration_yaml_path w = None \<or>
     (\<exists>cp. calibration_yaml_path w = Some cp \<and> \<not> path_exists (getcwd env) files (Path cp))"
    by auto
  then have "precision_args env w (base_cmd env w) (started w files) =
               (started w files, Inl calibration_error)"
    by (auto simp: precision_args_def started_def)
  with True show ?thesis
    by (simp add: export_run_eq calibration_error_def started_def)
qed

text \<open>
  The theorem of C2 on a run without the weight file, an int8 run without a calibration
  reference, and one whose reference names no file.
\<close>

theorem export_run_preconditions_witness:
  "ex_done (export_run demo_env demo_worker no_files) =
     (False, ''yolov8n'', ''int8'',
      ''Model file not found at /w/yolov8n.pt. Please download the model first.'') \<and>
   ex_popen_call (export_run demo_env demo_worker no_files) = None \<and>
   ex_done (export_run demo_env uncalibrated_worker demo_files) =
     (False, ''yolov8n'', ''int8'',
      ''INT8 calibration requires a valid calibration YAML file to be selected.'') \<and>
   ex_popen_call (export_run demo_env uncalibrated_worker demo_files) = None \<and>
   ex_done (export_run demo_env missing_calibration_worker demo_files) =
     (False, ''yolov8n'', ''int8'',
      ''INT8 calibration requires a valid calibration YAML file to be selected.'') \<and>
   ex_popen_call (export_run demo_env missing_calibration_worker demo_files) = None"
proof -
  have a: "\<not> path_exists (getcwd demo_env) no_files
              (worker_model_path demo_env (model_name demo_worker))" by code_simp
  have s: "str_path (worker_model_path demo_env ''yolov8n'') = ''/w/yolov8n.pt''"
    by code_simp
  have m: "model_name demo_worker = ''yolov8n''" "prec_str (precision demo_worker) = ''int8''"
    by code_simp+
  from export_run_preconditions [of demo_env no_files demo_worker] a
  have 1: "ex_done (export_run demo_env demo_worker no_files) =
     (False, ''yolov8n'', ''int8'',
      ''Model file not found at /w/yolov8n.pt. Please download the model first.'')"
    and 2: "ex_popen_call (export_run demo_env demo_worker no_files) = None"
    by (simp_all add: s m)
  have b: "path_exists (getcwd demo_env) demo_files
              (worker_model_path demo_env (model_name uncalibrated_worker))" by code_simp
  have b': "precision uncalibrated_worker = INT8 \<and> calibration_yaml_path uncalibrated_worker = None"
    by (simp add: uncalibrated_worker_def demo_worker_def)
  have mu: "model_name uncalibrated_worker = ''yolov8n''"
    "prec_str (precision uncalibrated_worker) = ''int8''"
    by code_simp+
  from export_run_preconditions [of demo_env demo_files uncalibrated_worker] b b'
  have 3: "ex_done (export_run demo_env uncalibrated_worker demo_files) =
     (False, ''yolov8n'', ''int8'',
      ''INT8 calibration requires a valid calibration YAML file to be selected.'')"
    and 4: "ex_popen_call (export_run demo_env uncalibrated_worker demo_files) = None"
    by (simp_all add: mu)
  have c: "path_exists (getcwd demo_env) demo_files
              (worker_model_path demo_env (model_name missing_calibration_worker))" by code_simp
  have c': "precision missing_calibration_worker = INT8 \<and>
            calibration_yaml_path missing_calibration_worker = Some ''/data/missing.yaml''"
    by (simp add: missing_calibration_worker_def demo_worker_def)
  have c'': "\<not> path_exists (getcwd demo_env) demo_files (Path ''/data/missing.yaml'')"
    by code_simp
  have mm: "model_name missing_calibration_worker = ''yolov8n''"
    "prec_str (precision missing_calibration_worker) = ''int8''"
    by code_simp+
  from export_run_preconditions [of demo_env demo_files missing_calibration_worker] c c' c''
  have 5: "ex_done (export_run demo_env missing_calibration_worker demo_files) =
     (False, ''yolov8n'', ''int8'',
      ''INT8 calibration requires a valid calibration YAML file to be selected.'')"
    and 6: "ex_popen_call (export_run demo_env missing_calibration_worker demo_files) = None"
    by (simp_all add: mm)
  from 1 2 3 4 5 6 show ?thesis by simp
qed




text \<open>
  The \<^verbatim>\<open>finally\<close> clause removes the temporary calibration copy once it is bound to
  \<^verbatim>\<open>temp_yaml_file\<close>, whatever the outcome of the run; the copy was a new file, it was
  there when the compiler was called, and it was the last argument passed.
\<close>

lemma export_run_removes_bound_temp:
  assumes "ex_temp (export_run env w files) = Some t"
  shows "\<not> path_exists (getcwd env) (ex_files (export_run env w files)) (Path t) \<and>
         (\<exists>cmd f1. ex_popen_call (export_run env w files) = Some (cmd, f1) \<and>
                   path_exists (getcwd env) f1 (Path t) \<and>
                   \<not> path_exists (getcwd env) files (Path t) \<and>
                   last cmd = ''data='' @ t)"
proof -
  have ex: "path_exists (getcwd env) files (worker_model_path env (model_name w))"
    using assms by (auto simp: export_run_eq split: if_splits)
  obtain s2 r where pa: "precision_args env w (base_cmd env w) (started w files) = (s2, r)"
    by (cases "precision_args env w (base_cmd env w) (started w files)") auto
  from assms ex pa obtain cmd where r: "r = Inr cmd"
    by (cases r) (auto simp: export_run_eq)
  with ex pa have run: "export_run env w files =
      finish env w (run_compiler env w (worker_model_path env (model_name w)) cmd s2)"
    by (simp add: export_run_eq)
  have tmp: "ex_temp (export_run env w files) = temp_yaml_file s2"
    and fl: "ex_files (export_run env w files) =
             remove_temp (getcwd env) (temp_yaml_file s2) (ex_files (export_run env w files))"
    and call: "ex_popen_call (export_run env w files) = Some (cmd, x_files s2)"
    unfolding run finish_run_compiler
    by (auto simp: remove_temp_def path_exists_iff split: sum.splits prod.splits option.splits)
  from tmp assms have t: "temp_yaml_file s2 = Some t" by simp
  with precision_args_Inr [OF pa [unfolded r]] obtain data' where
    nt: "NamedTemporaryFile env files = Inr t"
    and f2: "x_files s2 = files(locate (getcwd env) (Path t) \<mapsto> Descriptor data')"
    and c: "cmd = base_cmd env w @ [''int8'', ''data='' @ t]"
    by (auto simp: started_def)
  from NamedTemporaryFile_Inr [OF nt] temp_candidate_location [of t env]
  have ne: "t \<noteq> []" and fresh: "\<not> path_exists (getcwd env) files (Path t)" by auto
  have "ex_files (export_run env w files) (locate (getcwd env) (Path t)) = None"
    using fl t ne by (metis remove_temp_Some fun_upd_same)
  with call f2 c fresh show ?thesis by (simp add: path_exists_iff)
qed

text \<open>
  When \<^verbatim>\<open>yaml.dump\<close> raises, the temporary file has been created and
  \<^verbatim>\<open>temp_yaml_file\<close> is not bound yet: the run ends in a failure with the text of the
  exception, the compiler is not called, and the \<^verbatim>\<open>finally\<close> clause leaves the file
  where it is.
\<close>

lemma export_run_dump_error:
  assumes "precision w = INT8"
    and "calibration_yaml_path w = Some cp"
    and "path_exists (getcwd env) files (worker_model_path env (model_name w))"
    and "files (locate (getcwd env) (Path cp)) = Some (Descriptor data)"
    and "resolve_calibration (getcwd env) (Path cp) data = Inr data'"
    and "NamedTemporaryFile env files = Inr t"
    and "yaml_dump env data' = Some e"
  shows "ex_temp (export_run env w files) = None \<and>
         ex_popen_call (export_run env w files) = None \<and>
         ex_done (export_run env w files) =
           (False, model_name w, prec_str (precision w), exn_str e) \<and>
         ex_files (export_run env w files) =
           files(locate (getcwd env) (Path t) \<mapsto> Descriptor Null) \<and>
         \<not> path_exists (getcwd env) files (Path t) \<and>
         path_exists (getcwd env) (ex_files (export_run env w files)) (Path t)"
proof -
  have nm: "data \<noteq> Malformed"
    using assms(5)
    by (auto simp: resolve_calibration_def resolve_path_key_def contains_key_def Let_def)
  have sl: "safe_load (getcwd env) files (Path cp) = Inr data"
    using assms(4) nm by (cases data) (simp_all add: safe_load_def)
  have cpx: "path_exists (getcwd env) files (Path cp)"
    using assms(4) by (simp add: path_exists_iff)
  have "precision_args env w (base_cmd env w) (started w files) =
          ((started w files)\<lparr>x_files := files(locate (getcwd env) (Path t) \<mapsto> Descriptor Null)\<rparr>,
           Inl e)"
    using assms(1,2,5,6,7) sl cpx by (simp add: precision_args_def started_def)
  with assms(3) have "ex_temp (export_run env w files) = None"
    "ex_popen_call (export_run env w files) = None"
    "ex_done (export_run env w files) = (False, model_name w, prec_str (precision w), exn_str e)"
    "ex_files (export_run env w files) = files(locate (getcwd env) (Path t) \<mapsto> Descriptor Null)"
    by (simp_all add: export_run_eq)
  with NamedTemporaryFile_Inr [OF assms(6)] show ?thesis
    by (simp add: path_exists_iff)
qed

text \<open>
  Claim C6: the code does not do what the claim says. On a descriptor that
  \<^verbatim>\<open>yaml.safe_load\<close> reads and \<^verbatim>\<open>yaml.dump\<close> cannot write (one nested too deep), the run
  creates the temporary file, which was not there before, ends in a failure with
  \<^verbatim>\<open>temp_yaml_file\<close> unbound, and leaves the file behind.
\<close>

theorem export_run_dump_error_leaves_temp:
  "\<not> path_exists ''/home/user'' deep_files (Path ''/tmp/tmpabc123.yaml'') \<and>
   ex_temp (export_run deep_env deep_worker deep_files) = None \<and>
   ex_done (export_run deep_env deep_worker deep_files) =
     (False, ''yolov8n'', ''int8'', ''maximum recursion depth exceeded'') \<and>
   path_exists ''/home/user'' (ex_files (export_run deep_env deep_worker deep_files))
     (Path ''/tmp/tmpabc123.yaml'')"
  by code_simp

lemma rename_apply:
  "src \<noteq> dst \<Longrightarrow> rename files src dst dst = files src"
  "src \<noteq> dst \<Longrightarrow> rename files src dst src = None"
  "L \<noteq> src \<Longrightarrow> L \<noteq> dst \<Longrightarrow> rename files src dst L = files L"
  by (auto simp: rename_def)

text \<open>
  For an identifier without a separator the three paths are directly in the weights
  directory, and the stem is the identifier.
\<close>

lemma engine_paths_plain:
  assumes "m \<noteq> []" and "CHR ''/'' \<notin> set m"
  shows "worker_model_path env m =
           (Path (weights_dir_setting env))\<lparr>parts := parts (Path (weights_dir_setting env)) @ [m @ ''.pt'']\<rparr>"
    and "generic_engine_path env m = joinpath (Path (weights_dir_setting env)) (m @ ''.engine'')"
    and "tagged_engine_path env m pr =
           joinpath (Path (weights_dir_setting env)) (m @ ''-'' @ prec_str pr @ ''.engine'')"
proof -
  let ?wd = "Path (weights_dir_setting env)"
  have "m @ ''.pt'' \<noteq> ''.''" using assms(1) by (cases m) auto
  with assms show P: "worker_model_path env m = ?wd\<lparr>parts := parts ?wd @ [m @ ''.pt'']\<rparr>"
    by (simp add: worker_model_path_def joinpath_single)
  have "stem_of (m @ ''.'' @ ''pt'') = m" by (rule stem_of_suffix) (use assms in auto)
  then have st: "stem (worker_model_path env m) = m" by (simp add: stem_def name_def P)
  have pa: "parent (worker_model_path env m) = ?wd" by (simp add: parent_def P)
  show "generic_engine_path env m = joinpath ?wd (m @ ''.engine'')"
    by (simp add: generic_engine_path_def st pa)
  show "tagged_engine_path env m pr = joinpath ?wd (m @ ''-'' @ prec_str pr @ ''.engine'')"
    by (simp add: tagged_engine_path_def st pa)
qed

text \<open>
  Claim C3, as amended. In a run whose compiler process was started, whose output was
  read to its end without an exception, and which exited with code \<open>rc\<close>, leaving the
  files \<open>f2\<close>:
  \<^item> if \<open>rc = 0\<close> and \<^verbatim>\<open><stem>.engine\<close> exists, the outcome is success, and
    \<^verbatim>\<open><stem>-<precision>.engine\<close> now holds what \<^verbatim>\<open><stem>.engine\<close> held, which is gone;
  \<^item> if \<open>rc = 0\<close> and \<^verbatim>\<open><stem>.engine\<close> does not exist, the outcome is a failure;
  \<^item> if \<open>rc \<noteq> 0\<close>, the outcome is a failure and both names are as the compiler left
    them.
  If reading the output raised an exception, the outcome is a failure with the text of
  the exception, whatever the exit code and whether or not \<^verbatim>\<open><stem>.engine\<close> exists, and
  both names are as the compiler left them: nothing is renamed. In every case each
  other file, the temporary calibration copy apart, is as the compiler left it.
  The two names are \<open>generic_engine_path\<close> and \<open>tagged_engine_path\<close>, next to the
  weight file (\<open>engine_paths_plain\<close>).
\<close>

theorem export_run_artifact:
  assumes "ex_popen_call (export_run env w files) = Some (cmd, f1)"
    and "Popen env cmd f1 = Inr (lines, raised, rc, f2)"
  shows "(raised = None \<and> rc = 0 \<and>
          path_exists (getcwd env) f2 (generic_engine_path env (model_name w)) \<longrightarrow>
            ex_done (export_run env w files) =
              (True, model_name w, prec_str (precision w), ''Engine build successful.'') \<and>
            ex_files (export_run env w files)
                (locate (getcwd env) (tagged_engine_path env (model_name w) (precision w))) =
              f2 (locate (getcwd env) (generic_engine_path env (model_name w))) \<and>
            \<not> path_exists (getcwd env) (ex_files (export_run env w files))
                (generic_engine_path env (model_name w))) \<and>
         (raised = None \<and> rc = 0 \<and>
          \<not> path_exists (getcwd env) f2 (generic_engine_path env (model_name w)) \<longrightarrow>
            ex_done (export_run env w files) =
              (False, model_name w, prec_str (precision w), ''Failed to create TensorRT engine.'') \<and>
            ex_files (export_run env w files)
                (locate (getcwd env) (tagged_engine_path env (model_name w) (precision w))) =
              f2 (locate (getcwd env) (tagged_engine_path env (model_name w) (precision w)))) \<and>
         (raised = None \<and> rc \<noteq> 0 \<longrightarrow>
            ex_done (export_run env w files) =
              (False, model_name w, prec_str (precision w), ''Engine build failed.'') \<and>
            ex_files (export_run env w files)
                (locate (getcwd env) (generic_engine_path env (model_name w))) =
              f2 (locate (getcwd env) (generic_engine_path env (model_name w))) \<and>
            ex_files (export_run env w files)
                (locate (getcwd env) (tagged_engine_path env (model_name w) (precision w))) =
              f2 (locate (getcwd env) (tagged_engine_path env (model_name w) (precision w)))) \<and>
         (\<forall>e. raised = Some e \<longrightarrow>
            ex_done (export_run env w files) =
              (False, model_name w, prec_str (precision w), exn_str e) \<and>
            ex_files (export_run env w files)
                (locate (getcwd env) (generic_engine_path env (model_name w))) =
              f2 (locate (getcwd env) (generic_engine_path env (model_name w))) \<and>
            ex_files (export_run env w files)
                (locate (getcwd env) (tagged_engine_path env (model_name w) (precision w))) =
              f2 (locate (getcwd env) (tagged_engine_path env (model_name w) (precision w)))) \<and>
         (\<forall>L. L \<noteq> locate (getcwd env) (generic_engine_path env (model_name w)) \<and>
              L \<noteq> locate (getcwd env) (tagged_engine_path env (model_name w) (precision w)) \<and>
              (\<forall>t. ex_temp (export_run env w files) = Some t \<longrightarrow> L \<noteq> locate (getcwd env) (Path t))
              \<longrightarrow> ex_files (export_run env w files) L = f2 L)"
proof -
  let ?G = "locate (getcwd env) (generic_engine_path env (model_name w))"
  let ?N = "locate (getcwd env) (tagged_engine_path env (model_name w) (precision w))"
  from export_run_called [OF assms(1)] obtain s2 where
    pa: "precision_args env w (base_cmd env w) (started w files) = (s2, Inr cmd)"
    and s2: "x_files s2 = f1"
    and run: "export_run env w files =
           finish env w (run_compiler env w (worker_model_path env (model_name w)) cmd s2)"
    by blast
  have tmp: "temp_yaml_file s2 = None \<or>
             (\<exists>t. temp_yaml_file s2 = Some t \<and> t \<in> set (temp_candidates env))"
    using temp_after_precision_args [OF pa] by (auto simp: started_def)
  have GN: "?G \<noteq> ?N" by (rule engine_locations_distinct)
  have rG: "remove_temp (getcwd env) (temp_yaml_file s2) f ?G = f ?G"
    and rN: "remove_temp (getcwd env) (temp_yaml_file s2) f ?N = f ?N" for f
    using remove_temp_engine [OF tmp] by auto
  have rL: "remove_temp (getcwd env) (temp_yaml_file s2) f L = f L"
    if "\<forall>t. temp_yaml_file s2 = Some t \<longrightarrow> L \<noteq> locate (getcwd env) (Path t)" for f L
    using that by (intro remove_temp_other) auto
  show ?thesis
  proof (cases raised)
    case (Some e)
    with assms(2) s2 show ?thesis
      unfolding run finish_run_compiler by (simp add: rG rN rL)
  next
    case None
    show ?thesis
    proof (cases "rc = 0")
      case False
      with None assms(2) s2 show ?thesis
        unfolding run finish_run_compiler by (simp add: rG rN rL)
    next
      case True
      show ?thesis
      proof (cases "path_exists (getcwd env) f2 (generic_engine_path env (model_name w))")
        case False
        with None True assms(2) s2 show ?thesis
          unfolding run finish_run_compiler by (simp add: rG rN rL)
      next
        case ex: True
        with None True assms(2) s2 GN show ?thesis
          unfolding run finish_run_compiler
          by (simp add: rG rN rL rename_apply path_exists_iff)
      qed
    qed
  qed
qed

text \<open>
  The theorem of C3 on a compiler that leaves the artifact and exits with 0, one that
  exits with 0 and leaves nothing, one that exits with 1, and one whose output cannot
  be decoded.
\<close>

theorem export_run_artifact_witness:
  "ex_done (export_run demo_env demo_worker demo_files) =
     (True, ''yolov8n'', ''int8'', ''Engine build successful.'') \<and>
   ex_files (export_run demo_env demo_worker demo_files) [''w'', ''yolov8n-int8.engine''] =
     Some (Opaque ''engine'') \<and>
   \<not> path_exists (getcwd demo_env) (ex_files (export_run demo_env demo_worker demo_files))
       (generic_engine_path demo_env ''yolov8n'') \<and>
   ex_files (export_run demo_env demo_worker demo_files) [''w'', ''yolov8n.pt''] =
     Some (Opaque ''weights'') \<and>
   ex_done (export_run silent_env demo_worker demo_files) =
     (False, ''yolov8n'', ''int8'', ''Failed to create TensorRT engine.'') \<and>
   ex_done (export_run failing_env demo_worker demo_files) =
     (False, ''yolov8n'', ''int8'', ''Engine build failed.'') \<and>
   ex_files (export_run failing_env demo_worker demo_files) [''w'', ''yolov8n-int8.engine''] = None \<and>
   ex_files (export_run failing_env demo_worker demo_files) [''w'', ''yolov8n.engine''] = None \<and>
   ex_done (export_run garbled_env demo_worker demo_files) =
     (False, ''yolov8n'', ''int8'', ''utf-8 codec cannot decode byte 0xff'') \<and>
   ex_files (export_run garbled_env demo_worker demo_files) [''w'', ''yolov8n.engine''] =
     Some (Opaque ''engine'')"
proof -
  have m: "model_name demo_worker = ''yolov8n''" "prec_str (precision demo_worker) = ''int8''"
    "precision demo_worker = INT8"
    by code_simp+
  have G: "locate ''/home/user'' (generic_engine_path demo_env ''yolov8n'') = [''w'', ''yolov8n.engine'']"
    "locate ''/home/user'' (generic_engine_path silent_env ''yolov8n'') = [''w'', ''yolov8n.engine'']"
    "locate ''/home/user'' (generic_engine_path failing_env ''yolov8n'') = [''w'', ''yolov8n.engine'']"
    "locate ''/home/user'' (generic_engine_path garbled_env ''yolov8n'') = [''w'', ''yolov8n.engine'']"
    by code_simp+
  have N: "locate ''/home/user'' (tagged_engine_path demo_env ''yolov8n'' INT8) = [''w'', ''yolov8n-int8.engine'']"
    "locate ''/home/user'' (tagged_engine_path silent_env ''yolov8n'' INT8) = [''w'', ''yolov8n-int8.engine'']"
    "locate ''/home/user'' (tagged_engine_path failing_env ''yolov8n'' INT8) = [''w'', ''yolov8n-int8.engine'']"
    "locate ''/home/user'' (tagged_engine_path garbled_env ''yolov8n'' INT8) = [''w'', ''yolov8n-int8.engine'']"
    by code_simp+
  have cwd: "getcwd demo_env = ''/home/user''" "getcwd silent_env = ''/home/user''"
    "getcwd failing_env = ''/home/user''" "getcwd garbled_env = ''/home/user''"
    by code_simp+
  have T: "ex_temp (export_run demo_env demo_worker demo_files) = Some ''/tmp/tmpabc123.yaml''"
    "locate ''/home/user'' (Path ''/tmp/tmpabc123.yaml'') = [''tmp'', ''tmpabc123.yaml'']"
    by code_simp+
  \<comment> \<open>the run that succeeds\<close>
  have "case ex_popen_call (export_run demo_env demo_worker demo_files) of
          None \<Rightarrow> False | Some x \<Rightarrow> True" by code_simp
  then obtain cmd f1 where
    c1: "ex_popen_call (export_run demo_env demo_worker demo_files) = Some (cmd, f1)"
    by (rule called_obtain)
  have w1: "case ex_popen_call (export_run demo_env demo_worker demo_files) of
          None \<Rightarrow> False
        | Some (c, f) \<Rightarrow> (case f [''w'', ''yolov8n.pt''] of Some (Opaque b) \<Rightarrow> b = ''weights'' | _ \<Rightarrow> False)"
    by code_simp
  have f1w: "f1 [''w'', ''yolov8n.pt''] = Some (Opaque ''weights'')"
    using w1 c1 by (auto split: option.splits fcontent.splits)
  let ?f2 = "f1([''w'', ''yolov8n.engine''] \<mapsto> Opaque ''engine'')"
  have p1: "Popen demo_env cmd f1 = Inr ([''export success ''], None, 0, ?f2)"
    by (simp add: demo_env_def)
  have e1: "path_exists (getcwd demo_env) ?f2 (generic_engine_path demo_env (model_name demo_worker))"
    by (simp add: path_exists_iff m G cwd)
  from export_run_artifact [OF c1 p1] e1
  have 1: "ex_done (export_run demo_env demo_worker demo_files) =
             (True, ''yolov8n'', ''int8'', ''Engine build successful.'')"
    and 2: "ex_files (export_run demo_env demo_worker demo_files) [''w'', ''yolov8n-int8.engine''] =
             Some (Opaque ''engine'')"
    and 3: "\<not> path_exists (getcwd demo_env) (ex_files (export_run demo_env demo_worker demo_files))
             (generic_engine_path demo_env ''yolov8n'')"
    and 4: "ex_files (export_run demo_env demo_worker demo_files) [''w'', ''yolov8n.pt''] =
             Some (Opaque ''weights'')"
    by (simp_all add: m G N cwd T f1w)
  \<comment> \<open>the compiler that leaves nothing\<close>
  have "case ex_popen_call (export_run silent_env demo_worker demo_files) of
          None \<Rightarrow> False | Some x \<Rightarrow> True" by code_simp
  then obtain cmd2 g1 where
    c2: "ex_popen_call (export_run silent_env demo_worker demo_files) = Some (cmd2, g1)"
    by (rule called_obtain)
  have w2: "case ex_popen_call (export_run silent_env demo_worker demo_files) of
          None \<Rightarrow> False
        | Some (c, f) \<Rightarrow> (case f [''w'', ''yolov8n.engine''] of None \<Rightarrow> True | _ \<Rightarrow> False)"
    by code_simp
  have g1n: "g1 [''w'', ''yolov8n.engine''] = None"
    using w2 c2 by (auto split: option.splits)
  have p2: "Popen silent_env cmd2 g1 = Inr ([], None, 0, g1)"
    by (simp add: silent_env_def)
  have e2: "\<not> path_exists (getcwd silent_env) g1 (generic_engine_path silent_env (model_name demo_worker))"
    by (simp add: path_exists_iff m G cwd g1n)
  from export_run_artifact [OF c2 p2] e2
  have 5: "ex_done (export_run silent_env demo_worker demo_files) =
             (False, ''yolov8n'', ''int8'', ''Failed to create TensorRT engine.'')"
    by (simp add: m)
  \<comment> \<open>the compiler that fails\<close>
  have "case ex_popen_call (export_run failing_env demo_worker demo_files) of
          None \<Rightarrow> False | Some x \<Rightarrow> True" by code_simp
  then obtain cmd3 h1 where
    c3: "ex_popen_call (export_run failing_env demo_worker demo_files) = Some (cmd3, h1)"
    by (rule called_obtain)
  have w3: "case ex_popen_call (export_run failing_env demo_worker demo_files) of
          None \<Rightarrow> False
        | Some (c, f) \<Rightarrow> (case f [''w'', ''yolov8n.engine''] of None \<Rightarrow> True | _ \<Rightarrow> False) \<and>
                         (case f [''w'', ''yolov8n-int8.engine''] of None \<Rightarrow> True | _ \<Rightarrow> False)"
    by code_simp
  have h1n: "h1 [''w'', ''yolov8n.engine''] = None" "h1 [''w'', ''yolov8n-int8.engine''] = None"
    using w3 c3 by (auto split: option.splits)
  have p3: "Popen failing_env cmd3 h1 = Inr ([''error''], None, 1, h1)"
    by (simp add: failing_env_def)
  from export_run_artifact [OF c3 p3]
  have 6: "ex_done (export_run failing_env demo_worker demo_files) =
             (False, ''yolov8n'', ''int8'', ''Engine build failed.'')"
    and 7: "ex_files (export_run failing_env demo_worker demo_files) [''w'', ''yolov8n-int8.engine''] = None"
    and 8: "ex_files (export_run failing_env demo_worker demo_files) [''w'', ''yolov8n.engine''] = None"
    by (simp_all add: m G N cwd h1n)
  \<comment> \<open>the compiler whose output cannot be decoded\<close>
  have "case ex_popen_call (export_run garbled_env demo_worker demo_files) of
          None \<Rightarrow> False | Some x \<Rightarrow> True" by code_simp
  then obtain cmd4 k1 where
    c4: "ex_popen_call (export_run garbled_env demo_worker demo_files) = Some (cmd4, k1)"
    by (rule called_obtain)
  let ?k2 = "k1([''w'', ''yolov8n.engine''] \<mapsto> Opaque ''engine'')"
  have p4: "Popen garbled_env cmd4 k1 =
              Inr ([], Some (Exn ValueError ''utf-8 codec cannot decode byte 0xff''), 0, ?k2)"
    by (simp add: garbled_env_def)
  from export_run_artifact [OF c4 p4]
  have 9: "ex_done (export_run garbled_env demo_worker demo_files) =
             (False, ''yolov8n'', ''int8'', ''utf-8 codec cannot decode byte 0xff'')"
    and 10: "ex_files (export_run garbled_env demo_worker demo_files) [''w'', ''yolov8n.engine''] =
             Some (Opaque ''engine'')"
    by (simp_all add: m G N cwd)
  from 1 2 3 4 5 6 7 8 9 10 show ?thesis by simp
qed

text \<open>
  C3 as stated fails on the last of these runs: the compiler exits with 0 and
  \<^verbatim>\<open><stem>.engine\<close> exists, yet the outcome is a failure and the artifact keeps its
  generic name.
\<close>

theorem export_run_garbled_counterexample:
  "(case ex_popen_call (export_run garbled_env demo_worker demo_files) of
      None \<Rightarrow> False
    | Some (cmd, f1) \<Rightarrow>
        (case Popen garbled_env cmd f1 of
           Inl e \<Rightarrow> False
         | Inr (lines, raised, rc, f2) \<Rightarrow>
             rc = 0 \<and> path_exists ''/home/user'' f2 (generic_engine_path garbled_env ''yolov8n''))) \<and>
   ex_done (export_run garbled_env demo_worker demo_files) =
     (False, ''yolov8n'', ''int8'', ''utf-8 codec cannot decode byte 0xff'') \<and>
   path_exists ''/home/user'' (ex_files (export_run garbled_env demo_worker demo_files))
     (generic_engine_path garbled_env ''yolov8n'') \<and>
   \<not> path_exists ''/home/user'' (ex_files (export_run garbled_env demo_worker demo_files))
       (tagged_engine_path garbled_env ''yolov8n'' INT8)"
  by code_simp


lemma resolve_calibration_Mapping:
  assumes "resolve_calibration cwd p (Mapping data) = Inr doc'"
  shows "\<exists>data'. doc' = Mapping data' \<and>
           (\<forall>rel. data ''train'' = Some (YStr rel) \<and> \<not> isabs rel \<longrightarrow>
                  data' ''train'' = Some (YStr (resolved_str cwd (parent p) rel))) \<and>
           (\<forall>v. data ''val'' = Some (YStr v) \<and> \<not> isabs v \<longrightarrow>
                data' ''val'' = Some (YStr (resolved_str cwd (parent p) v)))"
  using assms
  by (auto simp: resolve_calibration_def resolve_path_key_def resolve_rel_key_def
                 contains_key_def getitem_def setitem_def Let_def
           split: option.splits yval.splits sum.splits if_splits)

lemma isabs_resolved_str: "isabs (resolved_str cwd d s)"
  by (simp add: isabs_def resolved_str_def str_path_def resolve_def)

lemma locate_resolved_str:
  "locate cwd (Path (resolved_str cwd (parent (Path cp)) s)) =
   locate cwd (joinpath (parent (Path cp)) s)"
proof -
  have "\<forall>c\<in>set (parts (parent (Path cp))). good_component c"
    by (auto simp: parent_def dest: in_set_butlastD parts_Path_good)
  then have "\<forall>c\<in>set (parts (joinpath (parent (Path cp)) s)). good_component c"
    using parts_joinpath_good by blast
  from locate_resolved [OF this] show ?thesis by (simp add: resolved_str_def)
qed

text \<open>
  Claim C5, as amended. In an int8 run that calls the compiler on a descriptor whose
  \<^verbatim>\<open>train\<close> field is a relative path, the last argument names a new temporary file
  that holds a copy of the descriptor in which \<^verbatim>\<open>train\<close> is an absolute path to the
  location of the descriptor's directory joined with the relative value (and likewise
  for a relative \<^verbatim>\<open>val\<close>); the descriptor is unchanged when the compiler is called,
  and it is unchanged at the end of the run provided the compiler leaves it alone and
  it is not itself one of the two engine files of the task.
\<close>

theorem export_run_calibration_copy:
  assumes "precision w = INT8"
    and "calibration_yaml_path w = Some cp"
    and "files (locate (getcwd env) (Path cp)) = Some (Descriptor (Mapping data))"
    and "data ''train'' = Some (YStr rel)"
    and "\<not> isabs rel"
    and "ex_popen_call (export_run env w files) = Some (cmd, f1)"
  shows "\<exists>t data'.
           cmd = base_cmd env w @ [''int8'', ''data='' @ t] \<and>
           \<not> path_exists (getcwd env) files (Path t) \<and>
           f1 = files(locate (getcwd env) (Path t) \<mapsto> Descriptor (Mapping data')) \<and>
           data' ''train'' = Some (YStr (resolved_str (getcwd env) (parent (Path cp)) rel)) \<and>
           isabs (resolved_str (getcwd env) (parent (Path cp)) rel) \<and>
           locate (getcwd env) (Path (resolved_str (getcwd env) (parent (Path cp)) rel)) =
             locate (getcwd env) (joinpath (parent (Path cp)) rel) \<and>
           (\<forall>v. data ''val'' = Some (YStr v) \<and> \<not> isabs v \<longrightarrow>
                data' ''val'' = Some (YStr (resolved_str (getcwd env) (parent (Path cp)) v)) \<and>
                isabs (resolved_str (getcwd env) (parent (Path cp)) v) \<and>
                locate (getcwd env) (Path (resolved_str (getcwd env) (parent (Path cp)) v)) =
                  locate (getcwd env) (joinpath (parent (Path cp)) v)) \<and>
           f1 (locate (getcwd env) (Path cp)) = files (locate (getcwd env) (Path cp)) \<and>
           (locate (getcwd env) (Path cp) \<noteq>
              locate (getcwd env) (generic_engine_path env (model_name w)) \<and>
            locate (getcwd env) (Path cp) \<noteq>
              locate (getcwd env) (tagged_engine_path env (model_name w) INT8) \<and>
            (\<forall>lines raised rc f2. Popen env cmd f1 = Inr (lines, raised, rc, f2) \<longrightarrow>
               f2 (locate (getcwd env) (Path cp)) = f1 (locate (getcwd env) (Path cp)))
            \<longrightarrow> ex_files (export_run env w files) (locate (getcwd env) (Path cp)) =
                  files (locate (getcwd env) (Path cp)))"
proof -
  let ?cwd = "getcwd env"
  let ?D = "locate ?cwd (Path cp)"
  from export_run_called [OF assms(6)] obtain s2 where
    pa: "precision_args env w (base_cmd env w) (started w files) = (s2, Inr cmd)"
    and s2: "x_files s2 = f1"
    and run: "export_run env w files =
           finish env w (run_compiler env w (worker_model_path env (model_name w)) cmd s2)"
    by blast
  from precision_args_Inr [OF pa] assms(1,2,3) obtain doc' t where
    rc: "resolve_calibration ?cwd (Path cp) (Mapping data) = Inr doc'"
    and nt: "NamedTemporaryFile env files = Inr t"
    and s2_doc: "s2 = (started w files)\<lparr>x_files := files(locate ?cwd (Path t) \<mapsto>
                        Descriptor doc'), temp_yaml_file := Some t\<rparr>"
    and cmd: "cmd = base_cmd env w @ [''int8'', ''data='' @ t]"
    by (auto simp: started_def)
  from resolve_calibration_Mapping [OF rc] obtain data' where
    doc': "doc' = Mapping data'"
    and tr: "\<forall>rel. data ''train'' = Some (YStr rel) \<and> \<not> isabs rel \<longrightarrow>
               data' ''train'' = Some (YStr (resolved_str ?cwd (parent (Path cp)) rel))"
    and va: "\<forall>v. data ''val'' = Some (YStr v) \<and> \<not> isabs v \<longrightarrow>
               data' ''val'' = Some (YStr (resolved_str ?cwd (parent (Path cp)) v))"
    by blast
  have s2_eq: "s2 = (started w files)\<lparr>x_files := files(locate ?cwd (Path t) \<mapsto>
                        Descriptor (Mapping data')), temp_yaml_file := Some t\<rparr>"
    using s2_doc doc' by simp
  have tr': "data' ''train'' = Some (YStr (resolved_str ?cwd (parent (Path cp)) rel))"
    using tr assms(4,5) by blast
  from NamedTemporaryFile_Inr [OF nt] have cand: "t \<in> set (temp_candidates env)"
    and fresh: "\<not> path_exists ?cwd files (Path t)" by auto
  from temp_candidate_location [OF cand] have ne: "t \<noteq> []" by simp
  have f1: "f1 = files(locate ?cwd (Path t) \<mapsto> Descriptor (Mapping data'))"
    using s2 s2_eq by simp
  have tD: "locate ?cwd (Path t) \<noteq> ?D"
    using fresh assms(3) by (auto simp: path_exists_iff)
  have f1D: "f1 ?D = files ?D" using tD by (simp add: f1)
  have tmp: "temp_yaml_file s2 = Some t" by (simp add: s2_eq)
  have final: "ex_files (export_run env w files) ?D = files ?D"
    if G: "?D \<noteq> locate ?cwd (generic_engine_path env (model_name w))"
    and N: "?D \<noteq> locate ?cwd (tagged_engine_path env (model_name w) INT8)"
    and fr: "\<forall>lines raised rc f2. Popen env cmd f1 = Inr (lines, raised, rc, f2) \<longrightarrow> f2 ?D = f1 ?D"
  proof (cases "Popen env cmd f1")
    case (Inl e)
    then show ?thesis
      unfolding run finish_run_compiler
      using s2 tmp ne tD f1D by (simp add: remove_temp_Some)
  next
    case (Inr res)
    obtain lines raised rc f2 where res: "res = (lines, raised, rc, f2)" by (cases res) auto
    with Inr fr f1D have "f2 ?D = files ?D" by simp
    with Inr res show ?thesis
      unfolding run finish_run_compiler
      using s2 tmp ne tD G N assms(1) by (simp add: remove_temp_Some rename_apply)
  qed
  show ?thesis
    using cmd fresh f1 f1D final tr' va
      isabs_resolved_str locate_resolved_str
    by (intro exI [of _ t] exI [of _ data']) (simp only: simp_thms, blast)
qed

text \<open>
  The theorem of C5 on the example run: the descriptor \<^verbatim>\<open>/data/calib/coco.yaml\<close> has
  \<^verbatim>\<open>train: images/train\<close> and \<^verbatim>\<open>val: ../val\<close>.
\<close>

theorem export_run_calibration_copy_witness:
  "resolved_str (getcwd demo_env) (parent (Path ''/data/calib/coco.yaml'')) ''images/train'' =
     ''/data/calib/images/train'' \<and>
   resolved_str (getcwd demo_env) (parent (Path ''/data/calib/coco.yaml'')) ''../val'' =
     ''/data/val'' \<and>
   (\<exists>cmd f1 t data'.
      ex_popen_call (export_run demo_env demo_worker demo_files) = Some (cmd, f1) \<and>
      cmd = base_cmd demo_env demo_worker @ [''int8'', ''data='' @ t] \<and>
      f1 = demo_files(locate (getcwd demo_env) (Path t) \<mapsto> Descriptor (Mapping data')) \<and>
      data' ''train'' = Some (YStr ''/data/calib/images/train'') \<and>
      data' ''val'' = Some (YStr ''/data/val'')) \<and>
   ex_files (export_run demo_env demo_worker demo_files) [''data'', ''calib'', ''coco.yaml''] =
     demo_files [''data'', ''calib'', ''coco.yaml'']"
proof -
  let ?cp = "''/data/calib/coco.yaml''"
  let ?D = "locate (getcwd demo_env) (Path ?cp)"
  have D: "?D = [''data'', ''calib'', ''coco.yaml'']" by code_simp
  have D2: "locate ''/home/user'' (Path ?cp) = [''data'', ''calib'', ''coco.yaml'']" by code_simp
  have h1: "precision demo_worker = INT8" by code_simp
  have h2: "calibration_yaml_path demo_worker = Some ?cp" by code_simp
  have h3: "demo_files ?D = Some (Descriptor (Mapping demo_doc))"
    by (simp add: D demo_files_def)
  have h4: "demo_doc ''train'' = Some (YStr ''images/train'')" by (simp add: demo_doc_def)
  have h5: "\<not> isabs ''images/train''" by code_simp
  have v: "demo_doc ''val'' = Some (YStr ''../val'') \<and> \<not> isabs ''../val''"
    by (simp add: demo_doc_def isabs_def)
  have r1: "resolved_str (getcwd demo_env) (parent (Path ?cp)) ''images/train'' =
              ''/data/calib/images/train''" by code_simp
  have r2: "resolved_str (getcwd demo_env) (parent (Path ?cp)) ''../val'' = ''/data/val''"
    by code_simp
  have G: "?D \<noteq> locate (getcwd demo_env) (generic_engine_path demo_env (model_name demo_worker))"
    "?D \<noteq> locate (getcwd demo_env) (tagged_engine_path demo_env (model_name demo_worker) INT8)"
    by code_simp+
  have Gl: "locate (getcwd demo_env) (generic_engine_path demo_env (model_name demo_worker)) =
              [''w'', ''yolov8n.engine'']" by code_simp
  have "case ex_popen_call (export_run demo_env demo_worker demo_files) of
          None \<Rightarrow> False | Some x \<Rightarrow> True" by code_simp
  then obtain cmd f1 where
    c: "ex_popen_call (export_run demo_env demo_worker demo_files) = Some (cmd, f1)"
    by (rule called_obtain)
  have fr: "\<forall>lines raised rc f2. Popen demo_env cmd f1 = Inr (lines, raised, rc, f2) \<longrightarrow> f2 ?D = f1 ?D"
    by (auto simp: demo_env_def D2)
  from export_run_calibration_copy [OF h1 h2 h3 h4 h5 c] obtain t data' where
    1: "cmd = base_cmd demo_env demo_worker @ [''int8'', ''data='' @ t]"
    and 2: "f1 = demo_files(locate (getcwd demo_env) (Path t) \<mapsto> Descriptor (Mapping data'))"
    and 3: "data' ''train'' =
              Some (YStr (resolved_str (getcwd demo_env) (parent (Path ?cp)) ''images/train''))"
    and 4: "\<forall>v. demo_doc ''val'' = Some (YStr v) \<and> \<not> isabs v \<longrightarrow>
              data' ''val'' = Some (YStr (resolved_str (getcwd demo_env) (parent (Path ?cp)) v))"
    and 5: "?D \<noteq> locate (getcwd demo_env) (generic_engine_path demo_env (model_name demo_worker)) \<and>
            ?D \<noteq> locate (getcwd demo_env) (tagged_engine_path demo_env (model_name demo_worker) INT8) \<and>
            (\<forall>lines raised rc f2. Popen demo_env cmd f1 = Inr (lines, raised, rc, f2) \<longrightarrow> f2 ?D = f1 ?D)
            \<longrightarrow> ex_files (export_run demo_env demo_worker demo_files) ?D = demo_files ?D"
    by blast
  from 4 v have 6: "data' ''val'' = Some (YStr ''/data/val'')" by (simp add: r2)
  from 5 G fr have 7: "ex_files (export_run demo_env demo_worker demo_files) ?D = demo_files ?D"
    by blast
  from c 1 2 3 6 have "\<exists>cmd f1 t data'.
      ex_popen_call (export_run demo_env demo_worker demo_files) = Some (cmd, f1) \<and>
      cmd = base_cmd demo_env demo_worker @ [''int8'', ''data='' @ t] \<and>
      f1 = demo_files(locate (getcwd demo_env) (Path t) \<mapsto> Descriptor (Mapping data')) \<and>
      data' ''train'' = Some (YStr ''/data/calib/images/train'') \<and>
      data' ''val'' = Some (YStr ''/data/val'')"
    by (auto simp: r1)
  with r1 r2 7 show ?thesis by (simp add: D)
qed

text \<open>
  C5 as stated fails when the descriptor is the file the task renames its artifact to:
  the descriptor \<^verbatim>\<open>/w/yolov8n-int8.engine\<close> is a YAML mapping with a relative \<^verbatim>\<open>train\<close>
  before the run, the run succeeds, and afterwards the file holds the engine.
\<close>

theorem export_run_descriptor_counterexample:
  "calibration_yaml_path alias_worker = Some ''/w/yolov8n-int8.engine'' \<and>
   locate (getcwd demo_env) (Path ''/w/yolov8n-int8.engine'') = [''w'', ''yolov8n-int8.engine''] \<and>
   alias_files [''w'', ''yolov8n-int8.engine''] = Some (Descriptor (Mapping demo_doc)) \<and>
   demo_doc ''train'' = Some (YStr ''images/train'') \<and>
   \<not> isabs ''images/train'' \<and>
   ex_done (export_run demo_env alias_worker alias_files) =
     (True, ''yolov8n'', ''int8'', ''Engine build successful.'') \<and>
   ex_files (export_run demo_env alias_worker alias_files) [''w'', ''yolov8n-int8.engine''] =
     Some (Opaque ''engine'')"
proof -
  have a: "calibration_yaml_path alias_worker = Some ''/w/yolov8n-int8.engine''" by code_simp
  have b: "locate (getcwd demo_env) (Path ''/w/yolov8n-int8.engine'') = [''w'', ''yolov8n-int8.engine'']"
    by code_simp
  have c: "alias_files [''w'', ''yolov8n-int8.engine''] = Some (Descriptor (Mapping demo_doc))"
    by (simp add: alias_files_def)
  have d: "demo_doc ''train'' = Some (YStr ''images/train'')" by (simp add: demo_doc_def)
  have e: "\<not> isabs ''images/train''" by code_simp
  have f: "ex_done (export_run demo_env alias_worker alias_files) =
     (True, ''yolov8n'', ''int8'', ''Engine build successful.'')" by code_simp
  have "case ex_files (export_run demo_env alias_worker alias_files) [''w'', ''yolov8n-int8.engine''] of
          Some (Opaque x) \<Rightarrow> x = ''engine'' | _ \<Rightarrow> False" by code_simp
  then have g: "ex_files (export_run demo_env alias_worker alias_files) [''w'', ''yolov8n-int8.engine''] =
     Some (Opaque ''engine'')"
    by (auto split: option.splits fcontent.splits)
  from a b c d e f g show ?thesis by simp
qed

section \<open>The state queries, the selectors and the window\<close>

text \<open>
  Claim C10, as amended. \<^verbatim>\<open>is_model_downloaded\<close> does not depend on its version
  argument: its result is whether the weight file exists in the weights directory,
  which is \<^verbatim>\<open><model>.pt\<close>, or \<^verbatim>\<open><model>\<close> itself when the identifier already ends in
  \<^verbatim>\<open>.pt\<close>; two file systems that agree on that file give the same result for any two
  versions.
\<close>

theorem is_model_downloaded_version_independent:
  "is_model_downloaded cwd files weights_dir v1 model =
     is_model_downloaded cwd files weights_dir v2 model \<and>
   (is_model_downloaded cwd files weights_dir v1 model \<longleftrightarrow>
      path_exists cwd files
        (joinpath weights_dir (if endswith model ''.pt'' then model else model @ ''.pt''))) \<and>
   ((path_exists cwd files
        (joinpath weights_dir (if endswith model ''.pt'' then model else model @ ''.pt'')) \<longleftrightarrow>
     path_exists cwd files'
        (joinpath weights_dir (if endswith model ''.pt'' then model else model @ ''.pt'')))
    \<longrightarrow> is_model_downloaded cwd files weights_dir v1 model =
         is_model_downloaded cwd files' weights_dir v2 model)"
  by (simp add: is_model_downloaded_def model_file_path_def)

text \<open>The theorem of C10 on two file systems and two versions.\<close>

theorem is_model_downloaded_version_independent_witness:
  "is_model_downloaded ''/home/user'' demo_files (Path ''/w'') ''Yolov8'' ''yolov8n'' \<and>
   is_model_downloaded ''/home/user'' weights_only (Path ''/w'') ''Yolo11'' ''yolov8n'' \<and>
   path_exists ''/home/user'' demo_files (joinpath (Path ''/w'') ''yolov8n.pt'')"
proof -
  have e: "\<not> endswith ''yolov8n'' ''.pt''" by code_simp
  have a: "path_exists ''/home/user'' demo_files (joinpath (Path ''/w'') (''yolov8n'' @ ''.pt''))"
    by code_simp
  have b: "path_exists ''/home/user'' weights_only (joinpath (Path ''/w'') (''yolov8n'' @ ''.pt''))"
    by code_simp
  from is_model_downloaded_version_independent
         [of "''/home/user''" demo_files "Path ''/w''" "''Yolov8''" "''yolov8n''" "''Yolo11''" weights_only]
  show ?thesis using e a b by auto
qed

text \<open>
  C10 as stated fails on an identifier that ends in \<^verbatim>\<open>.pt\<close>: the query is true although
  \<^verbatim>\<open><model>.pt\<close> does not exist.
\<close>

theorem is_model_downloaded_pt_counterexample:
  "is_model_downloaded ''/home/user'' weights_only (Path ''/w'') ''Yolov8'' ''yolov8n.pt'' \<and>
   \<not> path_exists ''/home/user'' weights_only (joinpath (Path ''/w'') (''yolov8n.pt'' @ ''.pt''))"
  by code_simp

lemma index_of_task_order_inj: "inj (index_of task_order)"
proof (rule injI)
  fix x y :: task
  assume "index_of task_order x = index_of task_order y"
  then show "x = y" by (cases x; cases y) (simp_all add: task_order_def)
qed

lemma sorted_task_order: "sorted (map (index_of task_order) task_order)"
  by (simp add: task_order_def)

lemma sort_tasks_filter:
  assumes "distinct xs"
  shows "sort_tasks xs = filter (\<lambda>c. c \<in> set xs) task_order"
proof -
  let ?k = "index_of task_order"
  have inj: "inj_on ?k A" for A using index_of_task_order_inj by (rule inj_on_subset) simp
  have all: "set task_order = UNIV"
  proof -
    have "x \<in> set task_order" for x :: task by (cases x) (simp_all add: task_order_def)
    then show ?thesis by auto
  qed
  have "map ?k (sort_key ?k xs) = map ?k (filter (\<lambda>c. c \<in> set xs) task_order)"
  proof (rule sorted_distinct_set_unique)
    show "sorted (map ?k (sort_key ?k xs))" by simp
    show "distinct (map ?k (sort_key ?k xs))"
      using assms by (simp add: distinct_map inj)
    show "sorted (map ?k (filter (\<lambda>c. c \<in> set xs) task_order))"
      using sorted_task_order by (simp add: sorted_filter)
    show "distinct (map ?k (filter (\<lambda>c. c \<in> set xs) task_order))"
      by (simp add: distinct_map inj task_order_def)
    show "set (map ?k (sort_key ?k xs)) = set (map ?k (filter (\<lambda>c. c \<in> set xs) task_order))"
      using all by auto
  qed
  then show ?thesis
    using inj_map_eq_map [OF index_of_task_order_inj] by (simp add: sort_tasks_def)
qed

text \<open>
  Claim C7, as amended. An identifier containing \<^verbatim>\<open>-seg\<close> and not \<^verbatim>\<open>-pose\<close> classifies
  as Segmentation (one containing \<^verbatim>\<open>-pose\<close> classifies as Pose), one containing none of
  the four suffixes as Detection; the category selector lists the fixed order
  Detection, Segmentation, Pose, OBB, Classification restricted to the categories of
  the version's identifiers, without duplicates, whatever order the set of categories
  is enumerated in.
\<close>

theorem update_tasks_classification:
  "(py_in ''-seg'' m \<and> \<not> py_in ''-pose'' m \<longrightarrow> task_of m = Segmentation) \<and>
   (py_in ''-pose'' m \<longrightarrow> task_of m = Pose) \<and>
   (\<not> py_in ''-seg'' m \<and> \<not> py_in ''-pose'' m \<and> \<not> py_in ''-obb'' m \<and> \<not> py_in ''-cls'' m
      \<longrightarrow> task_of m = Detection) \<and>
   update_tasks model_data version =
     filter (\<lambda>c. c \<in> task_of ` set (models_of model_data version)) task_order \<and>
   (\<forall>xs. distinct xs \<and> set xs = task_of ` set (models_of model_data version)
      \<longrightarrow> sort_tasks xs = update_tasks model_data version) \<and>
   distinct (update_tasks model_data version)"
proof -
  have u: "update_tasks model_data version =
           filter (\<lambda>c. c \<in> task_of ` set (models_of model_data version)) task_order"
    by (simp add: update_tasks_def Let_def sort_tasks_filter)
  have "distinct task_order" by (simp add: task_order_def)
  then have "distinct (update_tasks model_data version)" by (simp add: u)
  with u show ?thesis by (auto simp: task_of_def sort_tasks_filter)
qed

text \<open>The theorem of C7 on the example catalog.\<close>

theorem update_tasks_classification_witness:
  "task_of ''yolov8n-seg'' = Segmentation \<and>
   task_of ''yolov8n-pose'' = Pose \<and>
   task_of ''yolov8n'' = Detection \<and>
   update_tasks demo_catalog ''Yolov8'' = [Detection, Segmentation, Pose, Classification] \<and>
   sort_tasks [Pose, Classification, Detection, Segmentation] =
     [Detection, Segmentation, Pose, Classification]"
proof -
  have s: "py_in ''-seg'' ''yolov8n-seg'' \<and> \<not> py_in ''-pose'' ''yolov8n-seg''" by code_simp
  have p: "py_in ''-pose'' ''yolov8n-pose''" by code_simp
  have d: "\<not> py_in ''-seg'' ''yolov8n'' \<and> \<not> py_in ''-pose'' ''yolov8n'' \<and>
           \<not> py_in ''-obb'' ''yolov8n'' \<and> \<not> py_in ''-cls'' ''yolov8n''" by code_simp
  have u: "filter (\<lambda>c. c \<in> task_of ` set (models_of demo_catalog ''Yolov8'')) task_order =
           [Detection, Segmentation, Pose, Classification]" by code_simp
  have x: "distinct [Pose, Classification, Detection, Segmentation] \<and>
           set [Pose, Classification, Detection, Segmentation] =
             task_of ` set (models_of demo_catalog ''Yolov8'')" by code_simp
  from update_tasks_classification [of "''yolov8n-seg''" demo_catalog "''Yolov8''"] s
  have 1: "task_of ''yolov8n-seg'' = Segmentation" by blast
  from update_tasks_classification [of "''yolov8n-pose''" demo_catalog "''Yolov8''"] p
  have 2: "task_of ''yolov8n-pose'' = Pose" by blast
  from update_tasks_classification [of "''yolov8n''" demo_catalog "''Yolov8''"] d
  have 3: "task_of ''yolov8n'' = Detection"
    and 4: "update_tasks demo_catalog ''Yolov8'' =
              filter (\<lambda>c. c \<in> task_of ` set (models_of demo_catalog ''Yolov8'')) task_order"
    and 5: "\<forall>xs. distinct xs \<and> set xs = task_of ` set (models_of demo_catalog ''Yolov8'')
              \<longrightarrow> sort_tasks xs = update_tasks demo_catalog ''Yolov8''"
    by blast+
  from 5 x have "sort_tasks [Pose, Classification, Detection, Segmentation] =
                 update_tasks demo_catalog ''Yolov8''" by blast
  with 1 2 3 4 u show ?thesis by simp
qed

text \<open>
  C7 as stated fails on an identifier that contains both \<^verbatim>\<open>-seg\<close> and \<^verbatim>\<open>-pose\<close>.
\<close>

theorem task_of_seg_pose_counterexample:
  "py_in ''-seg'' ''yolov8n-seg-pose'' \<and> task_of ''yolov8n-seg-pose'' = Pose \<and>
   task_of ''yolov8n-seg-pose'' \<noteq> Segmentation"
  by code_simp

lemma model_file_path_idem:
  "model_file_path weights_dir (if endswith model ''.pt'' then model else model @ ''.pt'') =
   model_file_path weights_dir model"
  by (simp add: model_file_path_def endswith_append)

text \<open>
  Claim C1. If the delegate returns, the download task reports success exactly when
  \<^verbatim>\<open><identifier>.pt\<close> exists in the weights directory afterwards; if it raises, the
  task reports failure with the text of the exception. In particular, when the weight
  file is there before and the delegate returns leaving the files as they are, the
  task reports success and nothing has changed; \<^verbatim>\<open>ModelManager.download_model\<close> returns
  \<open>True\<close> on an existing weight file without calling the delegate.
\<close>

theorem download_run_outcome:
  "(YOLO env (str_path (worker_model_path env m)) files = (printed, files', None) \<longrightarrow>
      (fst (dl_complete (download_run env m files)) \<longleftrightarrow>
         path_exists (getcwd env) files' (worker_model_path env m)) \<and>
      dl_complete (download_run env m files) =
        (if path_exists (getcwd env) files' (worker_model_path env m)
         then (True, ''Download successful.'') else (False, ''Download failed.'')) \<and>
      dl_files (download_run env m files) = files') \<and>
   (YOLO env (str_path (worker_model_path env m)) files = (printed, files', Some e) \<longrightarrow>
      dl_complete (download_run env m files) = (False, exn_str e)) \<and>
   (path_exists (getcwd env) files (worker_model_path env m) \<and>
    YOLO env (str_path (worker_model_path env m)) files = (printed, files, None) \<longrightarrow>
      dl_complete (download_run env m files) = (True, ''Download successful.'') \<and>
      dl_files (download_run env m files) = files) \<and>
   (path_exists (getcwd env) files (model_file_path weights_dir m) \<longrightarrow>
      download_model env weights_dir version m files = (True, files))"
  by (simp add: download_run_def worker_model_path_def download_model_def Let_def
        model_file_path_idem)

text \<open>The theorem of C1 on a download, on a delegate that raises, and on a weight file already there.\<close>

theorem download_run_outcome_witness:
  "dl_complete (download_run demo_env ''yolov8n'' no_files) = (True, ''Download successful.'') \<and>
   dl_complete (download_run offline_env ''yolov8n'' no_files) = (False, ''Connection refused'') \<and>
   dl_complete (download_run demo_env ''yolov8n'' demo_files) = (True, ''Download successful.'') \<and>
   dl_files (download_run demo_env ''yolov8n'' demo_files) = demo_files \<and>
   download_model demo_env (Path ''/w'') ''Yolov8'' ''yolov8n'' demo_files = (True, demo_files)"
proof -
  let ?p = "str_path (worker_model_path demo_env ''yolov8n'')"
  let ?f = "no_files(locate ''/home/user'' (Path ?p) \<mapsto> Opaque ''weights'')"
  have n: "\<not> path_exists ''/home/user'' no_files (Path ?p)" by code_simp
  have y1: "YOLO demo_env ?p no_files = ([''Downloading''], ?f, None)"
    using n by (simp add: demo_env_def)
  have e1: "path_exists (getcwd demo_env) ?f (worker_model_path demo_env ''yolov8n'')"
    by code_simp
  from download_run_outcome [of demo_env "''yolov8n''" no_files "[''Downloading'']" ?f] y1 e1
  have 1: "dl_complete (download_run demo_env ''yolov8n'' no_files) =
             (True, ''Download successful.'')" by simp
  let ?q = "str_path (worker_model_path offline_env ''yolov8n'')"
  have y2: "YOLO offline_env ?q no_files = ([], no_files, Some (Exn OtherError ''Connection refused''))"
    by (simp add: offline_env_def)
  from download_run_outcome [of offline_env "''yolov8n''" no_files "[]" no_files
         "Exn OtherError ''Connection refused''"] y2
  have 2: "dl_complete (download_run offline_env ''yolov8n'' no_files) =
             (False, ''Connection refused'')" by simp
  have p: "path_exists ''/home/user'' demo_files (Path ?p)" by code_simp
  have y3: "YOLO demo_env ?p demo_files = ([], demo_files, None)"
    using p by (simp add: demo_env_def)
  have e3: "path_exists (getcwd demo_env) demo_files (worker_model_path demo_env ''yolov8n'')"
    by code_simp
  from download_run_outcome [of demo_env "''yolov8n''" demo_files "[]" demo_files] y3 e3
  have 3: "dl_complete (download_run demo_env ''yolov8n'' demo_files) =
             (True, ''Download successful.'')"
    and 4: "dl_files (download_run demo_env ''yolov8n'' demo_files) = demo_files"
    by simp_all
  have e5: "path_exists (getcwd demo_env) demo_files (model_file_path (Path ''/w'') ''yolov8n'')"
    by code_simp
  from download_run_outcome [of demo_env "''yolov8n''" demo_files _ _ _ "Path ''/w''" "''Yolov8''"] e5
  have 5: "download_model demo_env (Path ''/w'') ''Yolov8'' ''yolov8n'' demo_files = (True, demo_files)"
    by simp
  from 1 2 3 4 5 show ?thesis by simp
qed

text \<open>
  Claim C4. After a refresh with a model selected, the download button is enabled; the
  fp32 and the fp16 build buttons are enabled exactly when the model is downloaded, a
  GPU is available and the compiler runtime is installed; the int8 build button
  exactly when, in addition, a calibration reference is set. Selecting a calibration
  file while the other three conditions hold turns the int8 button from disabled to
  enabled and changes nothing else but the reference and the label that shows it.
\<close>

theorem update_model_status_enablement:
  assumes "model_combo ui \<noteq> []"
  shows "download_btn_enabled (update_model_status env files ui) \<and>
     (btn_build_fp32_enabled (update_model_status env files ui) \<longleftrightarrow>
        is_model_downloaded (getcwd env) files (Path (weights_dir_setting env)) ''Yolov8'' (model_combo ui)
        \<and> is_gpu_available env \<and> is_tensorrt_installed env) \<and>
     (btn_build_fp16_enabled (update_model_status env files ui) \<longleftrightarrow>
        is_model_downloaded (getcwd env) files (Path (weights_dir_setting env)) ''Yolov8'' (model_combo ui)
        \<and> is_gpu_available env \<and> is_tensorrt_installed env) \<and>
     (btn_build_int8_enabled (update_model_status env files ui) \<longleftrightarrow>
        is_model_downloaded (getcwd env) files (Path (weights_dir_setting env)) ''Yolov8'' (model_combo ui)
        \<and> is_gpu_available env \<and> is_tensorrt_installed env
        \<and> win_calibration_yaml_path ui \<noteq> None) \<and>
     (win_calibration_yaml_path ui = None \<and> file \<noteq> [] \<and>
      is_model_downloaded (getcwd env) files (Path (weights_dir_setting env)) ''Yolov8'' (model_combo ui)
      \<and> is_gpu_available env \<and> is_tensorrt_installed env \<longrightarrow>
        \<not> btn_build_int8_enabled (update_model_status env files ui) \<and>
        select_calibration_data env files (update_model_status env files ui) file =
          (update_model_status env files ui)
            \<lparr>win_calibration_yaml_path := Some file,
             btn_build_int8_enabled := True,
             lbl_calib_text := ''<i>'' @ name (Path file) @ ''</i>'',
             lbl_calib_tooltip := str_path (Path file)\<rparr>)"
  using assms
  by (simp add: update_model_status_def select_calibration_data_def Let_def)

text \<open>
  The theorem of C4 on the example environment, where the model is downloaded and both
  probes succeed, and on one without a GPU.
\<close>

theorem update_model_status_enablement_witness:
  "download_btn_enabled (update_model_status demo_env demo_files (setup_ui ''yolov8n'')) \<and>
   btn_build_fp32_enabled (update_model_status demo_env demo_files (setup_ui ''yolov8n'')) \<and>
   btn_build_fp16_enabled (update_model_status demo_env demo_files (setup_ui ''yolov8n'')) \<and>
   \<not> btn_build_int8_enabled (update_model_status demo_env demo_files (setup_ui ''yolov8n'')) \<and>
   select_calibration_data demo_env demo_files
       (update_model_status demo_env demo_files (setup_ui ''yolov8n'')) ''/data/calib/coco.yaml'' =
     (update_model_status demo_env demo_files (setup_ui ''yolov8n''))
       \<lparr>win_calibration_yaml_path := Some ''/data/calib/coco.yaml'',
        btn_build_int8_enabled := True,
        lbl_calib_text := ''<i>coco.yaml</i>'',
        lbl_calib_tooltip := ''/data/calib/coco.yaml''\<rparr> \<and>
   download_btn_enabled (update_model_status demo_env no_files (setup_ui ''yolov8n'')) \<and>
   \<not> btn_build_fp32_enabled (update_model_status demo_env no_files (setup_ui ''yolov8n''))"
proof -
  have sel: "model_combo (setup_ui ''yolov8n'') \<noteq> []" by (simp add: setup_ui_def)
  have cal: "win_calibration_yaml_path (setup_ui ''yolov8n'') = None" by (simp add: setup_ui_def)
  have d: "is_model_downloaded (getcwd demo_env) demo_files (Path (weights_dir_setting demo_env))
             ''Yolov8'' (model_combo (setup_ui ''yolov8n''))" by code_simp
  have nd: "\<not> is_model_downloaded (getcwd demo_env) no_files (Path (weights_dir_setting demo_env))
             ''Yolov8'' (model_combo (setup_ui ''yolov8n''))" by code_simp
  have g: "is_gpu_available demo_env" "is_tensorrt_installed demo_env" by code_simp+
  have f: "''/data/calib/coco.yaml'' \<noteq> []" by simp
  have n: "name (Path ''/data/calib/coco.yaml'') = ''coco.yaml''"
    "str_path (Path ''/data/calib/coco.yaml'') = ''/data/calib/coco.yaml''" by code_simp+
  from update_model_status_enablement [OF sel, of demo_env demo_files "''/data/calib/coco.yaml''"]
    cal d g f
  have 1: "download_btn_enabled (update_model_status demo_env demo_files (setup_ui ''yolov8n''))"
    and 2: "btn_build_fp32_enabled (update_model_status demo_env demo_files (setup_ui ''yolov8n''))"
    and 3: "btn_build_fp16_enabled (update_model_status demo_env demo_files (setup_ui ''yolov8n''))"
    and 4: "\<not> btn_build_int8_enabled (update_model_status demo_env demo_files (setup_ui ''yolov8n''))"
    and 5: "select_calibration_data demo_env demo_files
       (update_model_status demo_env demo_files (setup_ui ''yolov8n'')) ''/data/calib/coco.yaml'' =
     (update_model_status demo_env demo_files (setup_ui ''yolov8n''))
       \<lparr>win_calibration_yaml_path := Some ''/data/calib/coco.yaml'',
        btn_build_int8_enabled := True,
        lbl_calib_text := ''<i>'' @ name (Path ''/data/calib/coco.yaml'') @ ''</i>'',
        lbl_calib_tooltip := str_path (Path ''/data/calib/coco.yaml'')\<rparr>"
    by blast+
  from update_model_status_enablement [OF sel, of demo_env no_files "''/data/calib/coco.yaml''"] nd
  have 6: "download_btn_enabled (update_model_status demo_env no_files (setup_ui ''yolov8n''))"
    and 7: "\<not> btn_build_fp32_enabled (update_model_status demo_env no_files (setup_ui ''yolov8n''))"
    by blast+
  from 1 2 3 4 5 6 7 show ?thesis by (simp add: n)
qed

lemma build_text_no_INT8: "\<not> py_in ''INT8'' (build_text b)"
  by (simp add: build_text_def)

text \<open>
  The tool tip of the int8 button after a refresh is the one it had, or one of the two
  texts of the first two branches: the text about the calibration file is never set.
\<close>

lemma update_model_status_int8_tooltip:
  "btn_build_int8_tooltip (update_model_status env files ui) \<in>
     {btn_build_int8_tooltip ui, tooltip_no_gpu, tooltip_not_downloaded}"
  by (simp add: update_model_status_def Let_def build_text_no_INT8)

text \<open>
  Claim C9: the code does not do what the claim says. The last branch of the tool-tip
  chain of \<^verbatim>\<open>_update_model_status\<close> asks whether the text of the int8 button contains
  \<^verbatim>\<open>INT8\<close>, and that text is \<^verbatim>\<open>Build\<close> or \<^verbatim>\<open>Rebuild\<close>, so the branch is never taken:
  with the model downloaded, a GPU and the compiler runtime there and no calibration
  reference, the int8 button is disabled and its tool tip is what it was before, empty
  on a fresh window, and still the request to download the model when an earlier
  refresh had set that.
\<close>

theorem update_model_status_no_calibration_tooltip:
  "is_model_downloaded (getcwd demo_env) demo_files (Path (weights_dir_setting demo_env))
     ''Yolov8'' ''yolov8n'' \<and>
   is_gpu_available demo_env \<and> is_tensorrt_installed demo_env \<and>
   win_calibration_yaml_path (update_model_status demo_env demo_files (setup_ui ''yolov8n'')) = None \<and>
   \<not> btn_build_int8_enabled (update_model_status demo_env demo_files (setup_ui ''yolov8n'')) \<and>
   btn_build_int8_tooltip (update_model_status demo_env demo_files (setup_ui ''yolov8n'')) = [] \<and>
   \<not> btn_build_int8_enabled
       (update_model_status demo_env demo_files
          (update_model_status demo_env no_files (setup_ui ''yolov8n''))) \<and>
   btn_build_int8_tooltip
       (update_model_status demo_env demo_files
          (update_model_status demo_env no_files (setup_ui ''yolov8n''))) =
     tooltip_not_downloaded \<and>
   btn_build_int8_tooltip
       (update_model_status demo_env demo_files
          (update_model_status demo_env no_files (setup_ui ''yolov8n''))) \<noteq>
     tooltip_no_calibration"
  by code_simp

end
